theory Spec2Isabelle
  imports Complex_Main "HOL-Library.Sublist"
begin

section \<open>Python values shared by the three source files\<close>

text \<open>
  The exceptions the modelled code can raise. \<open>OutOfBounds\<close> is the failure of the grid's
  cell lookup; the others are Python's own.
\<close>

datatype error = IndexError | ValueError | TypeError | KeyError | OutOfBounds

subsection \<open>Strings: slices and \<open>str.split\<close>\<close>

text \<open>
  Python's \<open>s[start:stop]\<close> with integer bounds: a negative bound counts from the end, and
  both bounds are clipped to \<open>0..len(s)\<close>.
\<close>

definition slice_bound :: "nat \<Rightarrow> int \<Rightarrow> nat" where
  "slice_bound n i = (if i < 0 then nat (max 0 (int n + i)) else min n (nat i))"

definition py_slice :: "'a list \<Rightarrow> int \<Rightarrow> int \<Rightarrow> 'a list" where
  "py_slice s start stop =
     (let lo = slice_bound (length s) start; hi = slice_bound (length s) stop
      in take (hi - lo) (drop lo s))"

text \<open>\<open>s[:stop]\<close>: the start bound is absent, that is 0.\<close>

definition py_slice_to :: "'a list \<Rightarrow> int \<Rightarrow> 'a list" where
  "py_slice_to s stop = take (slice_bound (length s) stop) s"

text \<open>
  \<open>s.split(sep)\<close> with an explicit separator: the string is scanned from the left, every
  occurrence of \<open>sep\<close> found ends a piece and the scan goes on after it; an empty
  separator raises ValueError. \<open>split_scan sep acc s\<close> is the scan with the piece read so
  far in \<open>acc\<close>.
\<close>

function split_scan :: "string \<Rightarrow> string \<Rightarrow> string \<Rightarrow> string list" where
  "split_scan sep acc [] = [acc]"
| "split_scan sep acc (c # cs) =
     (if sep \<noteq> [] \<and> prefix sep (c # cs)
      then acc # split_scan sep [] (drop (length sep) (c # cs))
      else split_scan sep (acc @ [c]) cs)"
  by pat_completeness auto
termination
  by (relation "measure (\<lambda>(sep, acc, s). length s)") (auto simp: neq_Nil_conv)

definition py_split :: "string \<Rightarrow> string \<Rightarrow> error + string list" where
  "py_split s sep = (if sep = [] then Inl ValueError else Inr (split_scan sep [] s))"

section \<open>The launcher: \<open>src/Environment/launcherSofaEnvironment.py\<close>\<close>

text \<open>
  What the script does to the outside world, in order: lines printed, the search path
  extended, the environment class imported, the client built and run, the process left
  through \<open>exit\<close>, or an exception that nothing catches.
\<close>

datatype event =
    Print string
  | Exit nat
  | PathAppend string
  | ImportEnvironment string string
  | NewClient string int int int "string list option"
  | Initialize
  | Launch
  | Raise error

definition usage :: "string \<Rightarrow> string" where
  "usage prog = ''Usage: python3 '' @ prog @
     '' <file_path> <environment_class> <ip_address> <port> <instance_id> '' @
     ''<max_instance_count> <visu_db>''"

text \<open>
  Line 22: \<open>None if argv[7] == 'None' else [s[1:-1] for s in argv[7][1:-1].split(', ')]\<close>.
  The separator is not empty, so \<open>split\<close> cannot raise here; the branch is kept as the
  source's call has it.
\<close>

definition parse_visualization_db :: "string \<Rightarrow> error + string list option" where
  "parse_visualization_db a =
     (if a = ''None'' then Inr None
      else case py_split (py_slice a 1 (- 1)) '', '' of
             Inl e \<Rightarrow> Inl e
           | Inr pieces \<Rightarrow> Inr (Some (map (\<lambda>s. py_slice s 1 (- 1)) pieces)))"

text \<open>
  The body under \<open>if __name__ == '__main__'\<close>. The path separator \<open>os.sep\<close>, \<open>dirname\<close>
  and \<open>int\<close> are taken as parameters (\<open>py_int\<close> gives None where \<open>int\<close> raises
  ValueError); the import and the client's methods are outside calls, recorded as events
  and taken to return.
\<close>

definition launcher_main ::
  "string \<Rightarrow> (string \<Rightarrow> string) \<Rightarrow> (string \<Rightarrow> int option) \<Rightarrow> string list \<Rightarrow> event list" where
  "launcher_main sep dirname py_int argv =
     (if length argv \<noteq> 8 then
        (case argv of
           [] \<Rightarrow> [Raise IndexError]
         | prog # _ \<Rightarrow> [Print (usage prog), Exit 1])
      else
        (case py_split (argv ! 1) sep of
           Inl e \<Rightarrow> [PathAppend (dirname (argv ! 1)), Raise e]
         | Inr parts \<Rightarrow>
             let module_name = py_slice_to (last parts) (- 3);
                 pre = [PathAppend (dirname (argv ! 1)), ImportEnvironment module_name (argv ! 2)]
             in (case parse_visualization_db (argv ! 7) of
                   Inl e \<Rightarrow> pre @ [Raise e]
                 | Inr visualization_db \<Rightarrow>
                     (case (py_int (argv ! 4), py_int (argv ! 5), py_int (argv ! 6)) of
                        (Some port, Some instance_id, Some instance_nb) \<Rightarrow>
                          pre @ [NewClient (argv ! 3) port instance_id instance_nb visualization_db,
                                 Initialize, Launch,
                                 Print (''[launcherSofaEnvironment] Shutting down client '' @ argv ! 3)]
                      | _ \<Rightarrow> pre @ [Raise ValueError]))))"

text \<open>
  The spec's words for the parsed list, to compare the source with: the first and the last
  character removed.
\<close>

definition strip_ends :: "string \<Rightarrow> string" where
  "strip_ends s = butlast (tl s)"

definition is_client_event :: "event \<Rightarrow> bool" where
  "is_client_event e = (case e of NewClient _ _ _ _ _ \<Rightarrow> True | Initialize \<Rightarrow> True | Launch \<Rightarrow> True | _ \<Rightarrow> False)"

definition is_import_event :: "event \<Rightarrow> bool" where
  "is_import_event e = (case e of ImportEnvironment _ _ \<Rightarrow> True | PathAppend _ \<Rightarrow> True | _ \<Rightarrow> False)"

text \<open>\<open>sep.join(pieces)\<close>, the inverse of a split.\<close>

fun join :: "string \<Rightarrow> string list \<Rightarrow> string" where
  "join sep [] = []"
| "join sep [p] = p"
| "join sep (p # q # ps) = p @ sep @ join sep (q # ps)"

section \<open>Arrays of 3-vectors (numpy, as the two environments use it)\<close>

text \<open>
  Every array of the two environments has shape \<open>(n, 3)\<close>: one row of three doubles per
  node. A row is a triple and an array is the list of its rows, so a shape is the number of
  rows. A double is modelled as the real number it stands for; NaN and the infinities are
  outside the model. The rows are only copied, added and subtracted, and tested for a
  zero norm; of double arithmetic the model keeps what that test depends on, the underflow
  of a square to zero.
\<close>

type_synonym vec3 = "real \<times> real \<times> real"

definition zero3 :: vec3 where
  "zero3 = (0, 0, 0)"

fun vadd :: "vec3 \<Rightarrow> vec3 \<Rightarrow> vec3" where
  "vadd (a, b, c) (x, y, z) = (a + x, b + y, c + z)"

fun vsub :: "vec3 \<Rightarrow> vec3 \<Rightarrow> vec3" where
  "vsub (a, b, c) (x, y, z) = (a - x, b - y, c - z)"

text \<open>
  The product \<open>x * x\<close> in IEEE 754 double arithmetic with rounding to nearest: a square of
  at most \<open>2\<^sup>-\<^sup>1\<^sup>0\<^sup>7\<^sup>5\<close>, half the least positive double, is rounded to \<open>0.0\<close>, so the square
  of a non-zero double below about \<open>1.5e-162\<close> is zero. The rounding of a larger square is
  not modelled.
\<close>

definition square_underflows :: "real \<Rightarrow> bool" where
  "square_underflows x \<longleftrightarrow> x * x \<le> 1 / 2 ^ 1075"

definition fl_square :: "real \<Rightarrow> real" where
  "fl_square x = (if square_underflows x then 0 else x * x)"

text \<open>
  \<open>numpy.linalg.norm\<close> of one row, which numpy computes as \<open>sqrt(dot(x, x))\<close> in doubles:
  the result is \<open>0.0\<close> exactly when the three squares underflow, which a non-zero row of
  tiny entries does as well as the zero row.
\<close>

fun norm3 :: "vec3 \<Rightarrow> real" where
  "norm3 (x, y, z) = sqrt (fl_square x + fl_square y + fl_square z)"

text \<open>\<open>zeros((n, 3))\<close>.\<close>

definition zeros :: "nat \<Rightarrow> vec3 list" where
  "zeros n = replicate n zero3"

text \<open>
  An elementwise operation on two arrays \<open>(m, 3)\<close> and \<open>(n, 3)\<close>: the row counts must agree
  unless one of them is 1, which numpy broadcasts; otherwise ValueError.
\<close>

definition elementwise :: "(vec3 \<Rightarrow> vec3 \<Rightarrow> vec3) \<Rightarrow> vec3 list \<Rightarrow> vec3 list \<Rightarrow> error + vec3 list" where
  "elementwise f a b =
     (if length a = length b then Inr (map2 f a b)
      else if length a = 1 then Inr (map (f (hd a)) b)
      else if length b = 1 then Inr (map (\<lambda>x. f x (hd b)) a)
      else Inl ValueError)"

definition subtract :: "vec3 list \<Rightarrow> vec3 list \<Rightarrow> error + vec3 list" where
  "subtract a b = elementwise vsub a b"

definition add :: "vec3 list \<Rightarrow> vec3 list \<Rightarrow> error + vec3 list" where
  "add a b = elementwise vadd a b"

text \<open>
  The rows written by \<open>a[idx] = vals\<close>: \<open>vals\<close> has one row per index, or a single row
  that is broadcast to all of them.
\<close>

definition broadcast_rows :: "nat \<Rightarrow> vec3 list \<Rightarrow> vec3 list" where
  "broadcast_rows n vals = (if length vals = n then vals else replicate n (hd vals))"

text \<open>
  \<open>a[idx] = vals\<close> with an index array: ValueError when \<open>vals\<close> cannot be broadcast,
  IndexError when an index is out of range; otherwise the rows are written in the order of
  \<open>idx\<close>, so the last write to a repeated index stays.
\<close>

definition index_put :: "vec3 list \<Rightarrow> nat list \<Rightarrow> vec3 list \<Rightarrow> error + vec3 list" where
  "index_put a idx vals =
     (if length vals \<noteq> length idx \<and> length vals \<noteq> 1 then Inl ValueError
      else if \<exists>i \<in> set idx. length a \<le> i then Inl IndexError
      else Inr (fold (\<lambda>(i, v) a. a[i := v]) (zip idx (broadcast_rows (length idx) vals)) a))"

text \<open>\<open>a[idx]\<close> with an index array.\<close>

definition index_get :: "vec3 list \<Rightarrow> nat list \<Rightarrow> error + vec3 list" where
  "index_get a idx =
     (if \<exists>i \<in> set idx. length a \<le> i then Inl IndexError else Inr (map (\<lambda>i. a ! i) idx))"

text \<open>
  \<open>reshape(p, (n, 3))\<close> of a flat array, in row-major order; ValueError when the sizes
  differ. \<open>flatten\<close> is the inverse reading of an array as a flat one.
\<close>

fun rows3 :: "real list \<Rightarrow> vec3 list" where
  "rows3 (x # y # z # r) = (x, y, z) # rows3 r"
| "rows3 _ = []"

definition reshape :: "real list \<Rightarrow> nat \<Rightarrow> error + vec3 list" where
  "reshape p n = (if length p = n * 3 then Inr (rows3 p) else Inl ValueError)"

fun flatten :: "vec3 list \<Rightarrow> real list" where
  "flatten [] = []"
| "flatten ((x, y, z) # r) = x # y # z # flatten r"

section \<open>The simulation objects both environments read\<close>

text \<open>
  A mechanical object of the scene with its two node arrays, and a constant force field
  with the nodes it loads, its single \<open>force\<close> and its per-node \<open>forces\<close>.
\<close>

record mechanical_object =
  position :: "vec3 list"
  rest_position :: "vec3 list"

record constant_force_field =
  indices :: "nat list"
  force :: vec3
  forces :: "vec3 list"

text \<open>
  The scene that the base class \<open>LiverSofa\<close> builds (that class is not among the source
  files): the force fields and the surface and sparse-grid objects of the FEM model
  (\<open>f_\<close>) and of the network model (\<open>n_\<close>).
\<close>

record liver_sofa =
  force_field :: "constant_force_field list"
  f_surface_mo :: mechanical_object
  n_surface_mo :: mechanical_object
  f_sparse_grid_mo :: mechanical_object
  n_sparse_grid_mo :: mechanical_object

section \<open>\<open>examples/demos/Liver/FC/Environment/LiverTraining.py\<close>\<close>

text \<open>The two shapes are None until the scene graph is initialised.\<close>

record fc_liver_training = liver_sofa +
  input_size :: "nat option"
  output_size :: "nat option"

definition fc_onSimulationInitDoneEvent :: "fc_liver_training \<Rightarrow> fc_liver_training" where
  "fc_onSimulationInitDoneEvent env =
     env\<lparr>input_size := Some (length (position (n_surface_mo env))),
         output_size := Some (length (position (n_sparse_grid_mo env)))\<rparr>"

text \<open>The loop \<open>for cff in self.force_field: F[cff.indices] = cff.forces\<close>.\<close>

fun fc_encode :: "constant_force_field list \<Rightarrow> vec3 list \<Rightarrow> error + vec3 list" where
  "fc_encode [] F = Inr F"
| "fc_encode (cff # rest) F =
     (case index_put F (indices cff) (forces cff) of
        Inl e \<Rightarrow> Inl e
      | Inr F' \<Rightarrow> fc_encode rest F')"

definition fc_compute_input :: "fc_liver_training \<Rightarrow> error + vec3 list" where
  "fc_compute_input env =
     (case input_size env of
        None \<Rightarrow> Inl TypeError
      | Some n \<Rightarrow> fc_encode (force_field env) (zeros n))"

definition fc_compute_output :: "fc_liver_training \<Rightarrow> error + vec3 list" where
  "fc_compute_output env =
     subtract (position (f_sparse_grid_mo env)) (rest_position (f_sparse_grid_mo env))"

text \<open>
  \<open>prediction\<close> is the dictionary received; its entry \<open>'prediction'\<close> is a flat array.
  The result is the environment after the write to the network model's positions. While
  the shape is still None the call is taken to fail; a session applies predictions after
  the initialisation only.
\<close>

definition fc_apply_prediction ::
  "fc_liver_training \<Rightarrow> (string \<rightharpoonup> real list) \<Rightarrow> error + fc_liver_training" where
  "fc_apply_prediction env prediction =
     (case prediction ''prediction'' of
        None \<Rightarrow> Inl KeyError
      | Some p \<Rightarrow>
          (case output_size env of
             None \<Rightarrow> Inl TypeError
           | Some n \<Rightarrow>
               (case reshape p n of
                  Inl e \<Rightarrow> Inl e
                | Inr U \<Rightarrow>
                    (case add (rest_position (n_sparse_grid_mo env)) U of
                       Inl e \<Rightarrow> Inl e
                     | Inr P \<Rightarrow> Inr (env\<lparr>n_sparse_grid_mo := (n_sparse_grid_mo env)\<lparr>position := P\<rparr>\<rparr>)))))"

section \<open>\<open>examples/demos/Liver/UNet/Environment/LiverTraining.py\<close>\<close>

text \<open>
  The regular grid object: the cell that contains a point (the lookup fails outside the
  grid) and the corner nodes of a cell. Both are methods of an outside library and are
  taken as parameters.
\<close>

record grid =
  cell_index_containing :: "vec3 \<Rightarrow> error + nat"
  node_indices_of :: "nat \<Rightarrow> nat list"

text \<open>
  The attributes that \<open>LiverSofa\<close> sets for the grid variant: which models exist
  (\<open>create_model['fem']\<close>), the array shape \<open>data_size = (n, 3)\<close> kept as its row count, the
  number of nodes of the regular grid, the grid, the table from sparse-grid nodes to
  regular-grid nodes and the rest shape of the regular grid.
\<close>

record unet_liver_training = liver_sofa +
  create_model_fem :: bool
  data_size :: nat
  nb_nodes_regular_grid :: nat
  regular_grid :: grid
  idx_sparse_to_regular :: "nat list"
  regular_grid_rest_shape :: "vec3 list"

text \<open>
  The innermost loop of \<open>compute_input\<close>, over the nodes of one cell. The test
  \<open>node < nb_nodes_regular_grid\<close> comes first and short-cuts the read of \<open>F[node]\<close>.
\<close>

fun encode_cell :: "nat \<Rightarrow> vec3 \<Rightarrow> nat list \<Rightarrow> vec3 list \<Rightarrow> error + vec3 list" where
  "encode_cell nb f [] F = Inr F"
| "encode_cell nb f (node # nodes) F =
     (if node < nb then
        (if length F \<le> node then Inl IndexError
         else if norm3 (F ! node) = 0 then encode_cell nb f nodes (F[node := f])
         else encode_cell nb f nodes F)
      else encode_cell nb f nodes F)"

text \<open>Line 76: the surface object whose rest positions place the forces.\<close>

definition surface_mo :: "unet_liver_training \<Rightarrow> mechanical_object" where
  "surface_mo env = (if create_model_fem env then f_surface_mo env else n_surface_mo env)"

text \<open>The loop over the indices of one force field.\<close>

fun encode_indices ::
  "unet_liver_training \<Rightarrow> vec3 \<Rightarrow> nat list \<Rightarrow> vec3 list \<Rightarrow> error + vec3 list" where
  "encode_indices env f [] F = Inr F"
| "encode_indices env f (i # is) F =
     (if length (rest_position (surface_mo env)) \<le> i then Inl IndexError
      else (case cell_index_containing (regular_grid env) (rest_position (surface_mo env) ! i) of
              Inl e \<Rightarrow> Inl e
            | Inr cell \<Rightarrow>
                (case encode_cell (nb_nodes_regular_grid env) f
                        (node_indices_of (regular_grid env) cell) F of
                   Inl e \<Rightarrow> Inl e
                 | Inr F' \<Rightarrow> encode_indices env f is F')))"

text \<open>The loop over the force fields.\<close>

fun encode_fields ::
  "unet_liver_training \<Rightarrow> constant_force_field list \<Rightarrow> vec3 list \<Rightarrow> error + vec3 list" where
  "encode_fields env [] F = Inr F"
| "encode_fields env (ff # rest) F =
     (case encode_indices env (force ff) (indices ff) F of
        Inl e \<Rightarrow> Inl e
      | Inr F' \<Rightarrow> encode_fields env rest F')"

definition unet_compute_input :: "unet_liver_training \<Rightarrow> error + vec3 list" where
  "unet_compute_input env = encode_fields env (force_field env) (zeros (data_size env))"

definition unet_compute_output :: "unet_liver_training \<Rightarrow> error + vec3 list" where
  "unet_compute_output env =
     (case index_put (zeros (data_size env)) (idx_sparse_to_regular env)
             (position (f_sparse_grid_mo env)) of
        Inl e \<Rightarrow> Inl e
      | Inr actual_positions_on_regular_grid \<Rightarrow>
          subtract actual_positions_on_regular_grid (regular_grid_rest_shape env))"

definition unet_apply_prediction ::
  "unet_liver_training \<Rightarrow> (string \<rightharpoonup> real list) \<Rightarrow> error + unet_liver_training" where
  "unet_apply_prediction env prediction =
     (case prediction ''prediction'' of
        None \<Rightarrow> Inl KeyError
      | Some p \<Rightarrow>
          (case reshape p (data_size env) of
             Inl e \<Rightarrow> Inl e
           | Inr U \<Rightarrow>
               (case index_get U (idx_sparse_to_regular env) of
                  Inl e \<Rightarrow> Inl e
                | Inr U_sparse \<Rightarrow>
                    (case add (rest_position (n_sparse_grid_mo env)) U_sparse of
                       Inl e \<Rightarrow> Inl e
                     | Inr P \<Rightarrow> Inr (env\<lparr>n_sparse_grid_mo := (n_sparse_grid_mo env)\<lparr>position := P\<rparr>\<rparr>)))))"

section \<open>Notions used to state the properties\<close>

text \<open>
  The corner nodes that surface node \<open>i\<close> maps to: the nodes of the cell that contains its
  rest position (none when the lookup fails). The region of a force field is the set of
  corner nodes of all the nodes it loads.
\<close>

definition cell_nodes :: "unet_liver_training \<Rightarrow> nat \<Rightarrow> nat list" where
  "cell_nodes env i =
     (case cell_index_containing (regular_grid env) (rest_position (surface_mo env) ! i) of
        Inl e \<Rightarrow> []
      | Inr cell \<Rightarrow> node_indices_of (regular_grid env) cell)"


text \<open>
  The grid variant of \<open>compute_output\<close> as the spec words it, to compare the source with:
  the displacement of the sparse grid is scattered into the slots of the regular grid,
  then the rest shape of the regular grid is subtracted.
\<close>

definition unet_compute_output_spec :: "unet_liver_training \<Rightarrow> error + vec3 list" where
  "unet_compute_output_spec env =
     (case subtract (position (f_sparse_grid_mo env)) (rest_position (f_sparse_grid_mo env)) of
        Inl e \<Rightarrow> Inl e
      | Inr displacement \<Rightarrow>
          (case index_put (zeros (data_size env)) (idx_sparse_to_regular env) displacement of
             Inl e \<Rightarrow> Inl e
           | Inr scattered \<Rightarrow> subtract scattered (regular_grid_rest_shape env)))"

text \<open>
  Modelled from the spec: the tables that the base class \<open>LiverSofa\<close> (not among the source
  files) builds once at initialisation. The spec describes the index table as "a
  permutation/lookup array, built once, mapping each high-resolution node id to its unique
  corresponding regular-grid node id": it has one entry per node of the sparse grid, the
  entries are distinct node ids of the regular grid, and the rest shape of the regular
  grid has one row per regular node.
\<close>

definition index_table_ok :: "unet_liver_training \<Rightarrow> bool" where
  "index_table_ok env \<longleftrightarrow>
     distinct (idx_sparse_to_regular env)
     \<and> (\<forall>i \<in> set (idx_sparse_to_regular env). i < data_size env)
     \<and> length (idx_sparse_to_regular env) = length (position (f_sparse_grid_mo env))
     \<and> length (regular_grid_rest_shape env) = data_size env"

text \<open>
  Modelled from the spec: the index table is "used when the two discretizations coincide",
  so a sparse-grid node and the regular node it corresponds to are the same point at rest.
\<close>

definition rest_shape_ok :: "unet_liver_training \<Rightarrow> bool" where
  "rest_shape_ok env \<longleftrightarrow>
     (\<forall>k < length (idx_sparse_to_regular env).
        regular_grid_rest_shape env ! (idx_sparse_to_regular env ! k)
          = rest_position (f_sparse_grid_mo env) ! k)"

text \<open>
  Modelled from the spec: one time step of the simulation engine, an outside collaborator.
  It moves nodes and may change the force fields; it keeps the node count of every
  object ("shapes are fixed for the lifetime of a session") and does not touch the
  attributes of the environment.
\<close>

definition same_node_count :: "mechanical_object \<Rightarrow> mechanical_object \<Rightarrow> bool" where
  "same_node_count m m' \<longleftrightarrow>
     length (position m') = length (position m)
     \<and> length (rest_position m') = length (rest_position m)"

definition fc_animate :: "fc_liver_training \<Rightarrow> fc_liver_training \<Rightarrow> bool" where
  "fc_animate e e' \<longleftrightarrow>
     input_size e' = input_size e \<and> output_size e' = output_size e
     \<and> same_node_count (f_surface_mo e) (f_surface_mo e')
     \<and> same_node_count (n_surface_mo e) (n_surface_mo e')
     \<and> same_node_count (f_sparse_grid_mo e) (f_sparse_grid_mo e')
     \<and> same_node_count (n_sparse_grid_mo e) (n_sparse_grid_mo e')"

definition unet_animate :: "unet_liver_training \<Rightarrow> unet_liver_training \<Rightarrow> bool" where
  "unet_animate e e' \<longleftrightarrow>
     create_model_fem e' = create_model_fem e \<and> data_size e' = data_size e
     \<and> nb_nodes_regular_grid e' = nb_nodes_regular_grid e
     \<and> regular_grid e' = regular_grid e
     \<and> idx_sparse_to_regular e' = idx_sparse_to_regular e
     \<and> regular_grid_rest_shape e' = regular_grid_rest_shape e
     \<and> same_node_count (f_surface_mo e) (f_surface_mo e')
     \<and> same_node_count (n_surface_mo e) (n_surface_mo e')
     \<and> same_node_count (f_sparse_grid_mo e) (f_sparse_grid_mo e')
     \<and> same_node_count (n_sparse_grid_mo e) (n_sparse_grid_mo e')"

text \<open>
  A session: the states an environment goes through after initialisation, by time steps of
  the engine and by predictions applied. Without a grid the initialisation is
  \<open>onSimulationInitDoneEvent\<close>; with the grid the shape \<open>data_size\<close> is set by \<open>LiverSofa\<close>
  before the first step.
\<close>

inductive fc_session :: "fc_liver_training \<Rightarrow> fc_liver_training \<Rightarrow> bool" for e0 where
  fc_init: "fc_session e0 (fc_onSimulationInitDoneEvent e0)"
| fc_step: "fc_session e0 e \<Longrightarrow> fc_animate e e' \<Longrightarrow> fc_session e0 e'"
| fc_prediction: "fc_session e0 e \<Longrightarrow> fc_apply_prediction e p = Inr e' \<Longrightarrow> fc_session e0 e'"

inductive unet_session :: "unet_liver_training \<Rightarrow> unet_liver_training \<Rightarrow> bool" for e0 where
  unet_init: "unet_session e0 e0"
| unet_step: "unet_session e0 e \<Longrightarrow> unet_animate e e' \<Longrightarrow> unet_session e0 e'"
| unet_prediction: "unet_session e0 e \<Longrightarrow> unet_apply_prediction e p = Inr e' \<Longrightarrow> unet_session e0 e'"

text \<open>
  Modelled from the spec: a prediction is "logically shaped identically to ground_truth",
  that is the FEM model and the network model have sparse grids of the same node count,
  and an object has as many rest positions as positions.
\<close>

definition fc_scene_ok :: "fc_liver_training \<Rightarrow> bool" where
  "fc_scene_ok e \<longleftrightarrow>
     length (position (f_sparse_grid_mo e)) = length (position (n_sparse_grid_mo e))
     \<and> length (rest_position (f_sparse_grid_mo e)) = length (position (f_sparse_grid_mo e))"

section \<open>A small scene on which the properties are exercised\<close>

text \<open>
  A regular grid of two unit cells side by side along the first axis, hence of
  \<open>3 \<times> 2 \<times> 2 = 12\<close> nodes, node \<open>(i, j, k)\<close> having index \<open>i + 3 j + 6 k\<close> and rest
  position \<open>(i, j, k)\<close>. The surface has two nodes, one in each cell; the sparse grid has
  two nodes, which are the regular nodes 0 and 2. The FEM model is deformed, the network
  model is at rest.
\<close>

definition example_grid :: grid where
  "example_grid =
     \<lparr>cell_index_containing =
        (\<lambda>(x, y, z).
           if 0 \<le> x \<and> x < 1 \<and> 0 \<le> y \<and> y \<le> 1 \<and> 0 \<le> z \<and> z \<le> 1 then Inr 0
           else if 1 \<le> x \<and> x \<le> 2 \<and> 0 \<le> y \<and> y \<le> 1 \<and> 0 \<le> z \<and> z \<le> 1 then Inr 1
           else Inl OutOfBounds),
      node_indices_of = (\<lambda>cell. map (\<lambda>k. cell + k) [0, 1, 3, 4, 6, 7, 9, 10])\<rparr>"

definition example_surface :: mechanical_object where
  "example_surface =
     \<lparr>position = [(0, 0, 0), (1, 0, 0)], rest_position = [(0, 0, 0), (1, 0, 0)]\<rparr>"

definition example_sparse :: mechanical_object where
  "example_sparse =
     \<lparr>position = [(0, 1, 0), (2, 0, 5)], rest_position = [(0, 0, 0), (2, 0, 0)]\<rparr>"

definition example_sparse_at_rest :: mechanical_object where
  "example_sparse_at_rest =
     \<lparr>position = [(0, 0, 0), (2, 0, 0)], rest_position = [(0, 0, 0), (2, 0, 0)]\<rparr>"

definition example_rest_shape :: "vec3 list" where
  "example_rest_shape =
     [(0, 0, 0), (1, 0, 0), (2, 0, 0), (0, 1, 0), (1, 1, 0), (2, 1, 0),
      (0, 0, 1), (1, 0, 1), (2, 0, 1), (0, 1, 1), (1, 1, 1), (2, 1, 1)]"

definition example_unet :: "constant_force_field list \<Rightarrow> unet_liver_training" where
  "example_unet ffs =
     \<lparr>force_field = ffs,
      f_surface_mo = example_surface, n_surface_mo = example_surface,
      f_sparse_grid_mo = example_sparse, n_sparse_grid_mo = example_sparse_at_rest,
      create_model_fem = True, data_size = 12, nb_nodes_regular_grid = 12,
      regular_grid = example_grid,
      idx_sparse_to_regular = [0, 2],
      regular_grid_rest_shape = example_rest_shape\<rparr>"

text \<open>Three force fields: a downward force on node 0, a sideways one on node 1, a zero one on node 0.\<close>

definition ff_down :: constant_force_field where
  "ff_down = \<lparr>indices = [0], force = (0, - 1, 0), forces = [(0, - 1, 0)]\<rparr>"

definition ff_side :: constant_force_field where
  "ff_side = \<lparr>indices = [1], force = (1, 0, 0), forces = [(1, 0, 0)]\<rparr>"

definition ff_null :: constant_force_field where
  "ff_null = \<lparr>indices = [0], force = (0, 0, 0), forces = [(0, 0, 0)]\<rparr>"

text \<open>A force on node 0 that is not zero but whose norm is \<open>0.0\<close> in doubles.\<close>

definition ff_tiny :: constant_force_field where
  "ff_tiny = \<lparr>indices = [0], force = (1 / 10 ^ 200, 0, 0), forces = [(1 / 10 ^ 200, 0, 0)]\<rparr>"

text \<open>The same scene for the variant without a grid, with two force fields that both load node 1.\<close>

definition ff_both :: constant_force_field where
  "ff_both = \<lparr>indices = [0, 1], force = (0, 0, 0), forces = [(1, 0, 0), (2, 0, 0)]\<rparr>"

definition ff_one :: constant_force_field where
  "ff_one = \<lparr>indices = [1], force = (0, 0, 0), forces = [(0, 5, 0)]\<rparr>"

definition example_fc :: "constant_force_field list \<Rightarrow> fc_liver_training" where
  "example_fc ffs =
     \<lparr>force_field = ffs,
      f_surface_mo = example_surface, n_surface_mo = example_surface,
      f_sparse_grid_mo = example_sparse, n_sparse_grid_mo = example_sparse_at_rest,
      input_size = None, output_size = None\<rparr>"

section \<open>Properties of the launcher\<close>

lemma py_slice_strip_ends: "py_slice s 1 (- 1) = strip_ends s"
  by (cases s)
    (auto simp: py_slice_def slice_bound_def strip_ends_def Let_def butlast_conv_take
      nat_diff_distrib)

text \<open>
  C7. For every argument vector, program name included, whose length is not 8, the
  launcher prints the usage line that names the seven parameters and leaves with exit
  code 1; it neither extends the path, imports the environment class nor builds a client.
\<close>

theorem launcher_wrong_argument_count:
  assumes "length argv \<noteq> 8" and "argv \<noteq> []"
  shows "launcher_main sep dirname py_int argv =
           [Print (''Usage: python3 '' @ hd argv @
              '' <file_path> <environment_class> <ip_address> <port> <instance_id> <max_instance_count> <visu_db>''),
            Exit 1]
         \<and> (\<forall>e \<in> set (launcher_main sep dirname py_int argv).
               \<not> is_client_event e \<and> \<not> is_import_event e)"
  using assms
  by (cases argv) (auto simp: launcher_main_def usage_def is_client_event_def is_import_event_def)

theorem launcher_wrong_argument_count_witness:
  "length [''launcher.py'', ''Liver.py'', ''LiverTraining''] \<noteq> 8
   \<and> [''launcher.py'', ''Liver.py'', ''LiverTraining''] \<noteq> []
   \<and> launcher_main ''/'' (\<lambda>s. s) (\<lambda>s. None) [''launcher.py'', ''Liver.py'', ''LiverTraining''] =
      [Print ''Usage: python3 launcher.py <file_path> <environment_class> <ip_address> <port> <instance_id> <max_instance_count> <visu_db>'',
       Exit 1]"
  using launcher_wrong_argument_count
    [of "[''launcher.py'', ''Liver.py'', ''LiverTraining'']" "''/''" "\<lambda>s. s" "\<lambda>s. None"]
  by simp

text \<open>
  What a split is: joining the pieces with the separator gives the string back, and no
  piece contains the separator.
\<close>

lemma split_scan_not_Nil: "split_scan sep acc s \<noteq> []"
  by (induction sep acc s rule: split_scan.induct) auto

lemma join_Cons: "ps \<noteq> [] \<Longrightarrow> join sep (p # ps) = p @ sep @ join sep ps"
  by (cases ps) auto

lemma prefix_drop: "prefix sep s \<Longrightarrow> sep @ drop (length sep) s = s"
  by (auto simp: prefix_def)

lemma join_split_scan: "sep \<noteq> [] \<Longrightarrow> join sep (split_scan sep acc s) = acc @ s"
proof (induction sep acc s rule: split_scan.induct)
  case (1 sep acc)
  then show ?case by simp
next
  case (2 sep acc c cs)
  show ?case
  proof (cases "prefix sep (c # cs)")
    case True
    from True 2 have "join sep (split_scan sep [] (drop (length sep) (c # cs))) = drop (length sep) (c # cs)"
      by simp
    with True 2(3) prefix_drop[OF True] show ?thesis
      by (simp add: join_Cons split_scan_not_Nil)
  next
    case False
    with 2 show ?thesis by simp
  qed
qed

lemma split_scan_pieces:
  assumes "sep \<noteq> []"
    and "\<forall>u v. acc @ s = u @ sep @ v \<longrightarrow> length acc \<le> length u"
  shows "\<forall>p \<in> set (split_scan sep acc s). \<not> sublist sep p"
  using assms
proof (induction sep acc s rule: split_scan.induct)
  case (1 sep acc)
  have "\<not> sublist sep acc"
  proof
    assume "sublist sep acc"
    then obtain u v where acc: "acc = u @ sep @ v" by (auto simp: sublist_def)
    with 1(2) have "length acc \<le> length u" by simp
    with acc 1(1) show False by (cases sep) auto
  qed
  then show ?case by simp
next
  case (2 sep acc c cs)
  show ?case
  proof (cases "prefix sep (c # cs)")
    case True
    have "\<not> sublist sep acc"
    proof
      assume "sublist sep acc"
      then obtain u v where acc: "acc = u @ sep @ v" by (auto simp: sublist_def)
      then have "acc @ c # cs = u @ sep @ (v @ c # cs)" by simp
      with 2(4) have "length acc \<le> length u" by blast
      with acc 2(3) show False by (cases sep) auto
    qed
    moreover have "\<forall>p \<in> set (split_scan sep [] (drop (length sep) (c # cs))). \<not> sublist sep p"
      using 2(1) True 2(3) by simp
    ultimately show ?thesis using True 2(3) by simp
  next
    case False
    have "\<forall>u v. (acc @ [c]) @ cs = u @ sep @ v \<longrightarrow> length (acc @ [c]) \<le> length u"
    proof (intro allI impI)
      fix u v assume eq: "(acc @ [c]) @ cs = u @ sep @ v"
      then have eq': "acc @ c # cs = u @ sep @ v" by simp
      with 2(4) have le: "length acc \<le> length u" by blast
      have "length u \<noteq> length acc"
      proof
        assume "length u = length acc"
        with eq' have "c # cs = sep @ v" by simp
        then have "prefix sep (c # cs)" by (simp add: prefix_def)
        with False show False by simp
      qed
      with le show "length (acc @ [c]) \<le> length u" by simp
    qed
    with 2(2) 2(3) False show ?thesis by simp
  qed
qed

lemma split_no_separator:
  "sep \<noteq> [] \<Longrightarrow> \<forall>p \<in> set (split_scan sep [] s). \<not> sublist sep p"
  by (rule split_scan_pieces) auto

text \<open>
  C8. The token \<open>None\<close> parses to None. Every other argument parses to the list got by
  removing its first and last character, splitting what remains at each occurrence of
  the two characters comma and space, and removing the first and last character of every
  piece. The split is exact: the pieces joined by comma and space give the remainder
  back, and no piece contains a comma followed by a space.
\<close>

theorem parse_visualization_db_spec:
  "parse_visualization_db a =
     (if a = ''None'' then Inr None
      else Inr (Some (map strip_ends (split_scan '', '' [] (strip_ends a)))))
   \<and> join '', '' (split_scan '', '' [] (strip_ends a)) = strip_ends a
   \<and> (\<forall>p \<in> set (split_scan '', '' [] (strip_ends a)). \<not> sublist '', '' p)"
proof (intro conjI)
  show "parse_visualization_db a =
     (if a = ''None'' then Inr None
      else Inr (Some (map strip_ends (split_scan '', '' [] (strip_ends a)))))"
    by (simp add: parse_visualization_db_def py_split_def py_slice_strip_ends)
  show "join '', '' (split_scan '', '' [] (strip_ends a)) = strip_ends a"
    using join_split_scan[of "'', ''" "[]" "strip_ends a"] by simp
  show "\<forall>p \<in> set (split_scan '', '' [] (strip_ends a)). \<not> sublist '', '' p"
    using split_no_separator[of "'', ''" "strip_ends a"] by simp
qed

theorem parse_visualization_db_spec_witness:
  "parse_visualization_db ''None'' = Inr None
   \<and> parse_visualization_db ''['a', 'bc']'' = Inr (Some [''a'', ''bc''])"
  using parse_visualization_db_spec [of "''None''"]
    parse_visualization_db_spec [of "''['a', 'bc']''"]
  by (simp add: strip_ends_def)

section \<open>Writes through an index array\<close>

lemma length_fold_put [simp]:
  "length (fold (\<lambda>(i, v) a. a[i := v]) ps a) = length a"
  by (induction ps arbitrary: a) auto

lemma fold_put_other:
  "j \<notin> fst ` set ps \<Longrightarrow> fold (\<lambda>(i, v) a. a[i := v]) ps a ! j = a ! j"
  by (induction ps arbitrary: a) auto

lemma fold_put_last:
  "j < length a \<Longrightarrow> j \<notin> fst ` set qs \<Longrightarrow>
   fold (\<lambda>(i, v) a. a[i := v]) (ps @ (j, v) # qs) a ! j = v"
  by (simp add: fold_put_other)

lemma length_broadcast_rows:
  "length vals = n \<or> length vals = 1 \<Longrightarrow> length (broadcast_rows n vals) = n"
  by (auto simp: broadcast_rows_def)

lemma index_put_length:
  "index_put a idx vals = Inr b \<Longrightarrow> length b = length a"
  by (auto simp: index_put_def split: if_splits)

lemma index_put_other:
  "index_put a idx vals = Inr b \<Longrightarrow> j \<notin> set idx \<Longrightarrow> b ! j = a ! j"
  by (auto simp: index_put_def split: if_splits intro!: fold_put_other dest!: set_zip_leftD)

lemma index_put_at:
  assumes "index_put a idx vals = Inr b" and "k < length idx"
    and "\<forall>k'. k < k' \<and> k' < length idx \<longrightarrow> idx ! k' \<noteq> idx ! k"
  shows "b ! (idx ! k) = broadcast_rows (length idx) vals ! k"
proof -
  let ?vs = "broadcast_rows (length idx) vals"
  let ?ps = "zip idx ?vs"
  from assms(1) have len: "length ?vs = length idx"
    by (auto simp: index_put_def length_broadcast_rows split: if_splits)
  from assms(1) have b: "b = fold (\<lambda>(i, v) a. a[i := v]) ?ps a"
    and rng: "\<forall>i \<in> set idx. i < length a"
    by (auto simp: index_put_def split: if_splits)
  have k: "k < length ?ps" using assms(2) len by simp
  have split: "?ps = take k ?ps @ (idx ! k, ?vs ! k) # drop (Suc k) ?ps"
    using k len assms(2) by (metis id_take_nth_drop nth_zip)
  have "idx ! k \<notin> fst ` set (drop (Suc k) ?ps)"
  proof
    assume "idx ! k \<in> fst ` set (drop (Suc k) ?ps)"
    then obtain v where "(idx ! k, v) \<in> set (drop (Suc k) ?ps)" by auto
    then obtain m where m: "m < length (drop (Suc k) ?ps)" "drop (Suc k) ?ps ! m = (idx ! k, v)"
      by (auto simp: in_set_conv_nth)
    then have "Suc k + m < length idx" "idx ! (Suc k + m) = idx ! k"
      using len by auto
    with assms(3) show False by auto
  qed
  moreover have "idx ! k < length a" using rng assms(2) by simp
  ultimately have "fold (\<lambda>(i, v) a. a[i := v]) (take k ?ps @ (idx ! k, ?vs ! k) # drop (Suc k) ?ps) a ! (idx ! k) = ?vs ! k"
    by (rule fold_put_last[rotated])
  with split b show ?thesis by simp
qed

section \<open>The force encoding without a grid\<close>

lemma fc_encode_append:
  "fc_encode (xs @ ys) F = (case fc_encode xs F of Inl e \<Rightarrow> Inl e | Inr F1 \<Rightarrow> fc_encode ys F1)"
  by (induction xs arbitrary: F) (auto split: sum.splits)

lemma fc_encode_length:
  "fc_encode fs F = Inr F' \<Longrightarrow> length F' = length F"
  by (induction fs arbitrary: F) (auto split: sum.splits dest: index_put_length)

lemma fc_encode_other:
  "fc_encode fs F = Inr F' \<Longrightarrow> \<forall>c \<in> set fs. j \<notin> set (indices c) \<Longrightarrow> F' ! j = F ! j"
  by (induction fs arbitrary: F) (auto split: sum.splits dest: index_put_other)


section \<open>The force encoding on the regular grid\<close>

lemma square_underflows_0 [simp]: "square_underflows 0"
  by (simp add: square_underflows_def)

lemma not_square_underflows_ge_1: "1 \<le> \<bar>x\<bar> \<Longrightarrow> \<not> square_underflows x"
proof -
  assume a: "1 \<le> \<bar>x\<bar>"
  have "(1::real) \<le> \<bar>x\<bar> * \<bar>x\<bar>"
    using a by (metis abs_ge_zero mult_mono' mult_1 zero_le_one)
  then have 1: "1 \<le> x * x" by (simp add: abs_mult_self_eq)
  have "(1::real) / 2 ^ 1075 < 1" by simp
  with 1 show ?thesis by (simp add: square_underflows_def)
qed

lemma not_square_underflows_numeral [simp]:
  "\<not> square_underflows 1" "\<not> square_underflows (- 1)"
  "\<not> square_underflows (numeral n)" "\<not> square_underflows (- numeral n)"
  by (simp_all add: not_square_underflows_ge_1)

lemma fl_square_values [simp]:
  "fl_square 0 = 0" "fl_square 1 = 1" "fl_square (- 1) = 1"
  "fl_square (numeral n) = numeral n * numeral n"
  "fl_square (- numeral n) = numeral n * numeral n"
  by (simp_all add: fl_square_def)

lemma fl_square_nonneg: "0 \<le> fl_square x"
  by (simp add: fl_square_def)

lemma fl_square_eq_0_iff: "fl_square x = 0 \<longleftrightarrow> square_underflows x"
proof -
  have "(0::real) < 1 / 2 ^ 1075" by simp
  then show ?thesis by (auto simp: fl_square_def square_underflows_def)
qed

text \<open>The zero-norm test passes exactly for the rows whose three squares underflow.\<close>

lemma norm3_eq_0_iff:
  "norm3 v = 0 \<longleftrightarrow>
     square_underflows (fst v) \<and> square_underflows (fst (snd v)) \<and> square_underflows (snd (snd v))"
proof (cases v)
  case (fields x y z)
  have "fl_square x + fl_square y + fl_square z = 0 \<longleftrightarrow>
          fl_square x = 0 \<and> fl_square y = 0 \<and> fl_square z = 0"
    using fl_square_nonneg[of x] fl_square_nonneg[of y] fl_square_nonneg[of z] by linarith
  then show ?thesis using fields by (simp add: fl_square_eq_0_iff)
qed

lemma norm3_zero3 [simp]: "norm3 zero3 = 0"
  by (simp add: zero3_def)

lemma encode_cell_length:
  "encode_cell nb f nodes F = Inr F' \<Longrightarrow> length F' = length F"
  by (induction nodes arbitrary: F) (auto split: if_splits)

lemma encode_cell_at:
  "encode_cell nb f nodes F = Inr F' \<Longrightarrow>
   F' ! c = (if c \<in> set nodes \<and> c < nb \<and> norm3 (F ! c) = 0 then f else F ! c)"
proof (induction nodes arbitrary: F)
  case Nil
  then show ?case by simp
next
  case (Cons node nodes)
  show ?case
  proof (cases "node < nb \<and> norm3 (F ! node) = 0")
    case True
    with Cons.prems have len: "node < length F"
      and rec: "encode_cell nb f nodes (F[node := f]) = Inr F'"
      by (auto split: if_splits)
    show ?thesis
      using Cons.IH[OF rec] True len by (cases "c = node") auto
  next
    case False
    with Cons.prems have rec: "encode_cell nb f nodes F = Inr F'"
      by (auto split: if_splits)
    show ?thesis
      using Cons.IH[OF rec] False by (cases "c = node") auto
  qed
qed

lemma encode_cell_succeeds:
  "\<forall>c \<in> set nodes. c < nb \<longrightarrow> c < length F \<Longrightarrow> \<exists>F'. encode_cell nb f nodes F = Inr F'"
  by (induction nodes arbitrary: F) auto


lemma encode_indices_length:
  "encode_indices env f is F = Inr F' \<Longrightarrow> length F' = length F"
  by (induction "is" arbitrary: F) (auto split: if_splits sum.splits dest: encode_cell_length)


lemma encode_indices_at:
  "encode_indices env f is F = Inr F' \<Longrightarrow>
   F' ! c = (if c \<in> (\<Union>i \<in> set is. set (cell_nodes env i)) \<and> c < nb_nodes_regular_grid env
                \<and> norm3 (F ! c) = 0 then f else F ! c)"
proof (induction "is" arbitrary: F)
  case Nil
  then show ?case by simp
next
  case (Cons a "is")
  from Cons.prems(1) obtain cell F1 where
    cell: "cell_index_containing (regular_grid env) (rest_position (surface_mo env) ! a) = Inr cell"
    and F1: "encode_cell (nb_nodes_regular_grid env) f (node_indices_of (regular_grid env) cell) F = Inr F1"
    and rest: "encode_indices env f is F1 = Inr F'"
    by (auto split: if_splits sum.splits)
  have nodes: "cell_nodes env a = node_indices_of (regular_grid env) cell"
    using cell by (simp add: cell_nodes_def)
  show ?case
    using Cons.IH[OF rest] encode_cell_at[OF F1, of c] nodes
    by (auto split: if_splits)
qed


lemma encode_fields_length:
  "encode_fields env fs F = Inr F' \<Longrightarrow> length F' = length F"
  by (induction fs arbitrary: F) (auto split: sum.splits dest: encode_indices_length)




text \<open>The zero-norm test without the square root, which makes the loop executable.\<close>

lemma encode_cell_code [code]:
  "encode_cell nb f [] F = Inr F"
  "encode_cell nb f (node # nodes) F =
     (if node < nb then
        (if length F \<le> node then Inl IndexError
         else if square_underflows (fst (F ! node)) \<and> square_underflows (fst (snd (F ! node)))
                 \<and> square_underflows (snd (snd (F ! node)))
         then encode_cell nb f nodes (F[node := f])
         else encode_cell nb f nodes F)
      else encode_cell nb f nodes F)"
  by (simp_all add: norm3_eq_0_iff)

lemmas example_defs = example_unet_def example_fc_def example_grid_def example_surface_def
  example_sparse_def example_sparse_at_rest_def example_rest_shape_def ff_down_def ff_side_def ff_null_def ff_tiny_def ff_both_def
  ff_one_def surface_mo_def





text \<open>
  A first force that is not zero but has the norm \<open>0.0\<close> in doubles is overwritten like a
  zero force: with the tiny force first and the sideways force second, the shared corner
  node 1 holds the sideways force.
\<close>

lemma example_tiny_norm: "force ff_tiny \<noteq> zero3 \<and> norm3 (force ff_tiny) = 0"
proof -
  have "square_underflows (1 / 10 ^ 200)"
    by (simp add: square_underflows_def)
  then have "fl_square (1 / 10 ^ 200) = 0"
    by (simp only: fl_square_def if_True)
  then show ?thesis by (simp add: ff_tiny_def zero3_def)
qed

lemma example_input_tiny_side:
  "unet_compute_input (example_unet [ff_tiny, ff_side]) =
     Inr [(1 / 10 ^ 200, 0, 0), (1, 0, 0), (1, 0, 0), (1 / 10 ^ 200, 0, 0), (1, 0, 0), (1, 0, 0),
          (1 / 10 ^ 200, 0, 0), (1, 0, 0), (1, 0, 0), (1 / 10 ^ 200, 0, 0), (1, 0, 0), (1, 0, 0)]"
proof -
  have "square_underflows (1 / 10 ^ 200)"
    by (simp add: square_underflows_def)
  then have tiny: "fl_square (1 / 10 ^ 200) = 0"
    by (simp only: fl_square_def if_True)
  show ?thesis
    by (simp add: unet_compute_input_def example_defs zeros_def zero3_def eval_nat_numeral
        tiny[simplified])
qed

section \<open>The claims on the force encoding\<close>




text \<open>
  C10. Without a grid, when two force fields both list a node, the returned array holds
  at that node the row that the later field assigns to it: each field's assignment
  overwrites the earlier ones. Here \<open>A\<close> comes before \<open>B\<close>, position \<open>k\<close> is the last one
  of \<open>B\<close> that lists the node, and no field after \<open>B\<close> lists it.
\<close>

theorem fc_later_field_overwrites:
  assumes "fc_compute_input env = Inr F"
    and "force_field env = pre @ A # mid @ B # post"
    and "j \<in> set (indices A)"
    and "k < length (indices B)" and "indices B ! k = j"
    and "\<forall>k'. k < k' \<and> k' < length (indices B) \<longrightarrow> indices B ! k' \<noteq> j"
    and "\<forall>C \<in> set post. j \<notin> set (indices C)"
  shows "F ! j = broadcast_rows (length (indices B)) (forces B) ! k"
proof -
  from assms(1) obtain n where enc: "fc_encode (force_field env) (zeros n) = Inr F"
    by (auto simp: fc_compute_input_def split: option.splits)
  have "force_field env = (pre @ A # mid) @ B # post" using assms(2) by simp
  with enc obtain F1 F2 where
    F2: "index_put F1 (indices B) (forces B) = Inr F2" and post: "fc_encode post F2 = Inr F"
    by (auto simp: fc_encode_append split: sum.splits)
  have "F ! j = F2 ! j" using fc_encode_other[OF post assms(7)] .
  also have "F2 ! j = broadcast_rows (length (indices B)) (forces B) ! k"
    using index_put_at[OF F2 assms(4)] assms(5,6) by auto
  finally show ?thesis .
qed

theorem fc_later_field_overwrites_witness:
  "force_field (fc_onSimulationInitDoneEvent (example_fc [ff_both, ff_one])) = [] @ ff_both # [] @ ff_one # []
   \<and> 1 \<in> set (indices ff_both) \<and> indices ff_one ! 0 = 1
   \<and> (\<exists>F. fc_compute_input (fc_onSimulationInitDoneEvent (example_fc [ff_both, ff_one])) = Inr F
           \<and> F ! 1 = (0, 5, 0) \<and> forces ff_one ! 0 = (0, 5, 0) \<and> forces ff_both ! 1 = (2, 0, 0))"
proof -
  let ?env = "fc_onSimulationInitDoneEvent (example_fc [ff_both, ff_one])"
  have ff: "force_field ?env = [] @ ff_both # [] @ ff_one # []"
    by (simp add: fc_onSimulationInitDoneEvent_def example_fc_def)
  have run: "fc_compute_input ?env = Inr [(1, 0, 0), (0, 5, 0)]"
    by (simp add: fc_compute_input_def fc_onSimulationInitDoneEvent_def example_defs zeros_def
        index_put_def broadcast_rows_def zero3_def eval_nat_numeral)
  have a: "1 \<in> set (indices ff_both)" by (simp add: ff_both_def)
  have k: "0 < length (indices ff_one)" and jk: "indices ff_one ! 0 = 1"
    by (simp_all add: ff_one_def)
  have lst: "\<forall>k'. 0 < k' \<and> k' < length (indices ff_one) \<longrightarrow> indices ff_one ! k' \<noteq> 1"
    by (auto simp: ff_one_def)
  have "\<forall>C \<in> set []. (1::nat) \<notin> set (indices C)" by simp
  from fc_later_field_overwrites[OF run ff a k jk lst this]
  have "[(1, 0, 0), (0, 5, 0)] ! 1 = broadcast_rows (length (indices ff_one)) (forces ff_one) ! 0" .
  then have "[(1, 0, 0), (0, 5, 0)] ! 1 = ((0, 5, 0) :: vec3)"
    by (simp add: ff_one_def broadcast_rows_def)
  then show ?thesis using ff a jk run by (simp add: ff_one_def ff_both_def)
qed


lemma encode_indices_succeeds_single:
  assumes "i < length (rest_position (surface_mo env))"
    and "cell_index_containing (regular_grid env) (rest_position (surface_mo env) ! i) = Inr cell"
    and "\<forall>c \<in> set (node_indices_of (regular_grid env) cell). c < nb_nodes_regular_grid env \<longrightarrow> c < length F"
  shows "\<exists>F'. encode_indices env f [i] F = Inr F'"
  using assms encode_cell_succeeds[of "node_indices_of (regular_grid env) cell" "nb_nodes_regular_grid env" F f]
  by auto

text \<open>
  C6. In the grid variant, when the only force field carries the force \<open>(0, -1, 0)\<close> and
  lists a single surface node whose rest position lies in cell \<open>cell\<close>, \<open>compute_input\<close>
  returns an array that holds \<open>(0, -1, 0)\<close> at the corner nodes of that cell that are below
  the node count and zero at every other slot; corner nodes at or above the node count
  receive nothing.
\<close>

theorem unet_single_force:
  assumes "force_field env = [ff]" and "indices ff = [i]" and "force ff = (0, - 1, 0)"
    and "i < length (rest_position (surface_mo env))"
    and "cell_index_containing (regular_grid env) (rest_position (surface_mo env) ! i) = Inr cell"
    and "nb_nodes_regular_grid env \<le> data_size env"
  shows "\<exists>F. unet_compute_input env = Inr F \<and> length F = data_size env
           \<and> (\<forall>c < data_size env.
                 F ! c = (if c \<in> set (node_indices_of (regular_grid env) cell)
                               \<and> c < nb_nodes_regular_grid env
                          then (0, - 1, 0) else (0, 0, 0)))"
proof -
  let ?Z = "zeros (data_size env)"
  have "\<forall>c \<in> set (node_indices_of (regular_grid env) cell).
          c < nb_nodes_regular_grid env \<longrightarrow> c < length ?Z"
    using assms(6) by (auto simp: zeros_def)
  from encode_indices_succeeds_single[OF assms(4,5) this]
  obtain F where F: "encode_indices env (force ff) (indices ff) ?Z = Inr F"
    using assms(2) by metis
  have run: "unet_compute_input env = Inr F"
    using F assms(1) by (simp add: unet_compute_input_def)
  have len: "length F = data_size env"
    using encode_indices_length[OF F] by (simp add: zeros_def)
  have nodes: "cell_nodes env i = node_indices_of (regular_grid env) cell"
    using assms(5) by (simp add: cell_nodes_def)
  have "F ! c = (if c \<in> set (node_indices_of (regular_grid env) cell)
                      \<and> c < nb_nodes_regular_grid env
                 then (0, - 1, 0) else (0, 0, 0))" if "c < data_size env" for c
  proof -
    have z: "?Z ! c = zero3" using that by (simp add: zeros_def)
    show ?thesis
      using encode_indices_at[OF F, of c] assms(2,3) nodes z by (simp add: zero3_def)
  qed
  with run len show ?thesis by blast
qed

text \<open>
  On the example scene with the node count lowered to 10, the corner node 9 receives the
  force and the corner node 10 does not.
\<close>

theorem unet_single_force_witness:
  "\<exists>F. unet_compute_input ((example_unet [ff_down])\<lparr>nb_nodes_regular_grid := 10\<rparr>) = Inr F
       \<and> length F = 12 \<and> F ! 9 = (0, - 1, 0) \<and> F ! 10 = (0, 0, 0) \<and> F ! 2 = (0, 0, 0)"
proof -
  let ?env = "(example_unet [ff_down])\<lparr>nb_nodes_regular_grid := 10\<rparr>"
  have a: "force_field ?env = [ff_down]" "indices ff_down = [0]" "force ff_down = (0, - 1, 0)"
    by (simp_all add: example_unet_def ff_down_def)
  have b: "0 < length (rest_position (surface_mo ?env))"
    by (simp add: example_defs)
  have c: "cell_index_containing (regular_grid ?env) (rest_position (surface_mo ?env) ! 0) = Inr 0"
    by (simp add: example_defs)
  have d: "nb_nodes_regular_grid ?env \<le> data_size ?env"
    by (simp add: example_unet_def)
  from unet_single_force[OF a b c d] obtain F where
    F: "unet_compute_input ?env = Inr F" "length F = data_size ?env"
    and at: "\<forall>c < data_size ?env.
               F ! c = (if c \<in> set (node_indices_of (regular_grid ?env) 0)
                             \<and> c < nb_nodes_regular_grid ?env
                        then (0, - 1, 0) else (0, 0, 0))"
    by blast
  have sz: "data_size ?env = 12" by (simp add: example_unet_def)
  have "F ! 9 = (0, - 1, 0)" "F ! 10 = (0, 0, 0)" "F ! 2 = (0, 0, 0)"
    using at sz by (simp_all add: example_defs)
  with F sz show ?thesis by simp
qed

section \<open>The claims on the displacement output\<close>

lemma elementwise_nth:
  "elementwise f a b = Inr r \<Longrightarrow> j < length a \<Longrightarrow> j < length b \<Longrightarrow> r ! j = f (a ! j) (b ! j)"
proof -
  have hd0: "hd xs = xs ! 0" if "length xs = 1" for xs :: "vec3 list"
    using that by (cases xs) auto
  assume "elementwise f a b = Inr r" "j < length a" "j < length b"
  then show ?thesis
    by (auto simp: elementwise_def hd0 split: if_splits)
qed

lemma elementwise_same_length:
  "length a = length b \<Longrightarrow> elementwise f a b = Inr (map2 f a b)"
  by (simp add: elementwise_def)

lemma vsub_zero3_iff: "vsub zero3 v \<noteq> zero3 \<longleftrightarrow> v \<noteq> zero3"
  by (cases v) (auto simp: zero3_def)

text \<open>
  C9. In the grid variant of \<open>compute_output\<close>, a slot of the regular grid that is the image
  of no sparse-grid node holds zero minus the rest shape of the regular grid there, so it
  is non-zero exactly when the rest shape is non-zero there.
\<close>

theorem unet_output_unmapped_slot:
  assumes "unet_compute_output env = Inr U"
    and "j < data_size env" and "j < length (regular_grid_rest_shape env)"
    and "j \<notin> set (idx_sparse_to_regular env)"
  shows "U ! j = vsub zero3 (regular_grid_rest_shape env ! j)
         \<and> (U ! j \<noteq> zero3 \<longleftrightarrow> regular_grid_rest_shape env ! j \<noteq> zero3)"
proof -
  from assms(1) obtain a where
    a: "index_put (zeros (data_size env)) (idx_sparse_to_regular env) (position (f_sparse_grid_mo env)) = Inr a"
    and U: "subtract a (regular_grid_rest_shape env) = Inr U"
    by (auto simp: unet_compute_output_def split: sum.splits)
  have "a ! j = zero3"
    using index_put_other[OF a assms(4)] assms(2) by (simp add: zeros_def)
  moreover have "j < length a" using index_put_length[OF a] assms(2) by (simp add: zeros_def)
  ultimately have "U ! j = vsub zero3 (regular_grid_rest_shape env ! j)"
    using elementwise_nth[OF U[unfolded subtract_def] _ assms(3)] by simp
  then show ?thesis by (simp add: vsub_zero3_iff)
qed

theorem unet_output_unmapped_slot_witness:
  "1 < data_size (example_unet []) \<and> 1 < length (regular_grid_rest_shape (example_unet []))
   \<and> 1 \<notin> set (idx_sparse_to_regular (example_unet []))
   \<and> (\<exists>U. unet_compute_output (example_unet []) = Inr U \<and> U ! 1 = (- 1, 0, 0) \<and> U ! 1 \<noteq> zero3)"
proof -
  let ?env = "example_unet []"
  have run: "unet_compute_output ?env =
      Inr [(0, 1, 0), (- 1, 0, 0), (0, 0, 5), (0, - 1, 0), (- 1, - 1, 0), (- 2, - 1, 0),
           (0, 0, - 1), (- 1, 0, - 1), (- 2, 0, - 1), (0, - 1, - 1), (- 1, - 1, - 1), (- 2, - 1, - 1)]"
    by (simp add: unet_compute_output_def example_defs zeros_def zero3_def index_put_def
        broadcast_rows_def subtract_def elementwise_def eval_nat_numeral)
  have h: "1 < data_size ?env" "1 < length (regular_grid_rest_shape ?env)"
    "1 \<notin> set (idx_sparse_to_regular ?env)"
    by (simp_all add: example_defs)
  from unet_output_unmapped_slot[OF run h]
  have "[(0, 1, 0), (- 1, 0, 0), (0, 0, 5), (0, - 1, 0), (- 1, - 1, 0), (- 2, - 1, 0),
         (0, 0, - 1), (- 1, 0, - 1), (- 2, 0, - 1), (0, - 1, - 1), (- 1, - 1, - 1), (- 2, - 1, - 1)] ! 1
        = vsub zero3 (regular_grid_rest_shape ?env ! 1)"
    by simp
  then show ?thesis using h run by (simp add: example_defs zero3_def)
qed

lemma rows3_flatten [simp]: "rows3 (flatten U) = U"
  by (induction U rule: flatten.induct) auto

lemma length_flatten [simp]: "length (flatten U) = length U * 3"
  by (induction U rule: flatten.induct) auto

lemma reshape_flatten: "reshape (flatten U) (length U) = Inr U"
  by (simp add: reshape_def)

lemma length_rows3: "length p = n * 3 \<Longrightarrow> length (rows3 p) = n"
proof (induction p arbitrary: n rule: rows3.induct)
  case (1 x y z r)
  then obtain m where n: "n = Suc m" by (cases n) auto
  with 1 show ?case by simp
qed auto

lemma rows3_nth:
  "length p = n * 3 \<Longrightarrow> k < n \<Longrightarrow> rows3 p ! k = (p ! (3 * k), p ! (3 * k + 1), p ! (3 * k + 2))"
proof (induction p arbitrary: n k rule: rows3.induct)
  case (1 x y z r)
  then obtain m where n: "n = Suc m" by (cases n) auto
  with 1 have len: "length r = m * 3" by simp
  show ?case
  proof (cases k)
    case 0
    then show ?thesis by simp
  next
    case (Suc k')
    with 1(3) n have "k' < m" by simp
    from "1.IH"[OF len this] Suc show ?thesis by (simp add: numeral_3_eq_3)
  qed
qed auto

lemma index_put_succeeds:
  "length vals = length idx \<Longrightarrow> \<forall>i \<in> set idx. i < length a \<Longrightarrow> \<exists>b. index_put a idx vals = Inr b"
  by (auto simp: index_put_def)

lemma length_elementwise:
  "length a = length b \<Longrightarrow> elementwise f a b = Inr r \<Longrightarrow> length r = length a"
  by (auto simp: elementwise_def)

lemma unet_output_mapped:
  assumes "unet_compute_output env = Inr U" and "k < length (idx_sparse_to_regular env)"
    and "distinct (idx_sparse_to_regular env)"
    and "length (position (f_sparse_grid_mo env)) = length (idx_sparse_to_regular env)"
    and "idx_sparse_to_regular env ! k < length (regular_grid_rest_shape env)"
  shows "U ! (idx_sparse_to_regular env ! k) =
           vsub (position (f_sparse_grid_mo env) ! k)
                (regular_grid_rest_shape env ! (idx_sparse_to_regular env ! k))"
proof -
  let ?idx = "idx_sparse_to_regular env"
  from assms(1) obtain a where
    a: "index_put (zeros (data_size env)) ?idx (position (f_sparse_grid_mo env)) = Inr a"
    and U: "elementwise vsub a (regular_grid_rest_shape env) = Inr U"
    by (auto simp: unet_compute_output_def subtract_def split: sum.splits)
  have last: "\<forall>k'. k < k' \<and> k' < length ?idx \<longrightarrow> ?idx ! k' \<noteq> ?idx ! k"
    using assms(2,3) by (auto simp: nth_eq_iff_index_eq)
  have ak: "a ! (?idx ! k) = position (f_sparse_grid_mo env) ! k"
    using index_put_at[OF a assms(2) last] assms(4) by (simp add: broadcast_rows_def)
  have "\<forall>i \<in> set ?idx. i < length (zeros (data_size env))"
    using a by (auto simp: index_put_def split: if_splits)
  then have "?idx ! k < length (zeros (data_size env))"
    using assms(2) nth_mem by blast
  then have "?idx ! k < length a" using index_put_length[OF a] by simp
  from elementwise_nth[OF U this assms(5)] ak show ?thesis by simp
qed

lemma unet_output_succeeds:
  assumes "length (position (f_sparse_grid_mo env)) = length (idx_sparse_to_regular env)"
    and "\<forall>i \<in> set (idx_sparse_to_regular env). i < data_size env"
    and "length (regular_grid_rest_shape env) = data_size env"
  shows "\<exists>U. unet_compute_output env = Inr U \<and> length U = data_size env"
proof -
  from index_put_succeeds[OF assms(1), of "zeros (data_size env)"] assms(2)
  obtain a where
    a: "index_put (zeros (data_size env)) (idx_sparse_to_regular env) (position (f_sparse_grid_mo env)) = Inr a"
    by (auto simp: zeros_def)
  have "length a = data_size env" using index_put_length[OF a] by (simp add: zeros_def)
  then show ?thesis using a assms(3)
    by (simp add: unet_compute_output_def subtract_def elementwise_def)
qed

lemma unet_output_table:
  assumes ok: "index_table_ok env"
  shows "\<exists>U. unet_compute_output env = Inr U
          \<and> length U = data_size env
          \<and> (\<forall>k < length (idx_sparse_to_regular env).
                U ! (idx_sparse_to_regular env ! k) =
                  vsub (position (f_sparse_grid_mo env) ! k)
                       (regular_grid_rest_shape env ! (idx_sparse_to_regular env ! k)))"
proof -
  let ?idx = "idx_sparse_to_regular env"
  from ok have d: "distinct ?idx" and rng: "\<forall>i \<in> set ?idx. i < data_size env"
    and lp: "length (position (f_sparse_grid_mo env)) = length ?idx"
    and lr: "length (regular_grid_rest_shape env) = data_size env"
    by (simp_all add: index_table_ok_def)
  from unet_output_succeeds[OF lp rng lr] obtain U where
    U: "unet_compute_output env = Inr U" and lU: "length U = data_size env" by blast
  have "U ! (?idx ! k) = vsub (position (f_sparse_grid_mo env) ! k)
                                   (regular_grid_rest_shape env ! (?idx ! k))"
    if "k < length ?idx" for k
  proof -
    have "?idx ! k < length (regular_grid_rest_shape env)"
      using rng lr that nth_mem by fastforce
    from unet_output_mapped[OF U that d lp this] show ?thesis .
  qed
  with U lU show ?thesis by blast
qed

lemma index_get_succeeds:
  "\<forall>i \<in> set idx. i < length a \<Longrightarrow> index_get a idx = Inr (map (\<lambda>i. a ! i) idx)"
  by (auto simp: index_get_def)

lemma unet_apply_prediction_run:
  assumes "prediction ''prediction'' = Some p" and "length p = data_size env * 3"
    and "\<forall>i \<in> set (idx_sparse_to_regular env). i < data_size env"
    and "length (rest_position (n_sparse_grid_mo env)) = length (idx_sparse_to_regular env)"
  shows "unet_apply_prediction env prediction =
           Inr (env\<lparr>n_sparse_grid_mo := (n_sparse_grid_mo env)
                  \<lparr>position := map2 vadd (rest_position (n_sparse_grid_mo env))
                                 (map (\<lambda>i. rows3 p ! i) (idx_sparse_to_regular env))\<rparr>\<rparr>)"
  using assms
  by (simp add: unet_apply_prediction_def reshape_def index_get_succeeds length_rows3
      add_def elementwise_def)

lemma fc_apply_prediction_frame:
  "fc_apply_prediction e p = Inr e' \<Longrightarrow>
   e' = e\<lparr>n_sparse_grid_mo := (n_sparse_grid_mo e)\<lparr>position := position (n_sparse_grid_mo e')\<rparr>\<rparr>"
  by (auto simp: fc_apply_prediction_def split: option.splits sum.splits)

lemma unet_apply_prediction_frame:
  "unet_apply_prediction e p = Inr e' \<Longrightarrow>
   e' = e\<lparr>n_sparse_grid_mo := (n_sparse_grid_mo e)\<lparr>position := position (n_sparse_grid_mo e')\<rparr>\<rparr>"
  by (auto simp: unet_apply_prediction_def split: option.splits sum.splits)

lemma fc_apply_prediction_keeps:
  "fc_apply_prediction e p = Inr e' \<Longrightarrow>
   input_size e' = input_size e \<and> output_size e' = output_size e
   \<and> force_field e' = force_field e
   \<and> f_surface_mo e' = f_surface_mo e \<and> n_surface_mo e' = n_surface_mo e
   \<and> f_sparse_grid_mo e' = f_sparse_grid_mo e
   \<and> rest_position (n_sparse_grid_mo e') = rest_position (n_sparse_grid_mo e)"
  by (auto simp: fc_apply_prediction_def split: option.splits sum.splits)

lemma unet_apply_prediction_keeps:
  "unet_apply_prediction e p = Inr e' \<Longrightarrow>
   create_model_fem e' = create_model_fem e \<and> data_size e' = data_size e
   \<and> nb_nodes_regular_grid e' = nb_nodes_regular_grid e
   \<and> regular_grid e' = regular_grid e
   \<and> idx_sparse_to_regular e' = idx_sparse_to_regular e
   \<and> regular_grid_rest_shape e' = regular_grid_rest_shape e
   \<and> force_field e' = force_field e
   \<and> f_surface_mo e' = f_surface_mo e \<and> n_surface_mo e' = n_surface_mo e
   \<and> f_sparse_grid_mo e' = f_sparse_grid_mo e
   \<and> rest_position (n_sparse_grid_mo e') = rest_position (n_sparse_grid_mo e)"
  by (auto simp: unet_apply_prediction_def split: option.splits sum.splits)

lemma fc_session_invariant:
  "fc_session e0 e \<Longrightarrow>
   input_size e = Some (length (position (n_surface_mo e0)))
   \<and> output_size e = Some (length (position (n_sparse_grid_mo e0)))
   \<and> same_node_count (f_sparse_grid_mo e0) (f_sparse_grid_mo e)"
proof (induction rule: fc_session.induct)
  case fc_init
  show ?case by (simp add: fc_onSimulationInitDoneEvent_def same_node_count_def)
next
  case (fc_step e e')
  then show ?case by (auto simp: fc_animate_def same_node_count_def)
next
  case (fc_prediction e p e')
  from fc_apply_prediction_keeps[OF fc_prediction.hyps(2)]
  have "input_size e' = input_size e" "output_size e' = output_size e"
    "f_sparse_grid_mo e' = f_sparse_grid_mo e"
    by simp_all
  with fc_prediction.IH show ?case by simp
qed

lemma unet_session_invariant:
  "unet_session e0 e \<Longrightarrow>
   data_size e = data_size e0 \<and> regular_grid_rest_shape e = regular_grid_rest_shape e0"
proof (induction rule: unet_session.induct)
  case unet_init
  show ?case by simp
next
  case (unet_step e e')
  then show ?case by (simp add: unet_animate_def)
next
  case (unet_prediction e p e')
  with unet_apply_prediction_keeps[OF unet_prediction.hyps(2)] show ?case by simp
qed

lemma fc_compute_input_length:
  "fc_compute_input e = Inr F \<Longrightarrow> input_size e = Some (length F)"
  by (auto simp: fc_compute_input_def zeros_def split: option.splits dest: fc_encode_length)

lemma unet_compute_input_length:
  "unet_compute_input e = Inr F \<Longrightarrow> length F = data_size e"
  by (auto simp: unet_compute_input_def zeros_def dest: encode_fields_length)

lemma unet_compute_output_length:
  assumes "unet_compute_output e = Inr U" and "length (regular_grid_rest_shape e) = data_size e"
  shows "length U = data_size e"
proof -
  from assms(1) obtain a where
    a: "index_put (zeros (data_size e)) (idx_sparse_to_regular e) (position (f_sparse_grid_mo e)) = Inr a"
    and U: "elementwise vsub a (regular_grid_rest_shape e) = Inr U"
    by (auto simp: unet_compute_output_def subtract_def split: sum.splits)
  have "length a = data_size e" using index_put_length[OF a] by (simp add: zeros_def)
  with U assms(2) show ?thesis by (auto simp: elementwise_def)
qed

lemma fc_apply_prediction_run:
  assumes "output_size fc = Some n" and "prediction ''prediction'' = Some p"
    and "length p = n * 3" and "length (rest_position (n_sparse_grid_mo fc)) = n"
  shows "fc_apply_prediction fc prediction =
           Inr (fc\<lparr>n_sparse_grid_mo := (n_sparse_grid_mo fc)
                  \<lparr>position := map2 vadd (rest_position (n_sparse_grid_mo fc)) (rows3 p)\<rparr>\<rparr>)"
  using assms
  by (simp add: fc_apply_prediction_def reshape_def length_rows3 add_def elementwise_def)

section \<open>The claims on the output, the prediction and the session\<close>

lemma example_index_table_ok: "index_table_ok (example_unet ffs)"
  by (simp add: index_table_ok_def example_defs)

lemma example_rest_shape_ok: "rest_shape_ok (example_unet ffs)"
  by (auto simp: rest_shape_ok_def example_defs less_Suc_eq)

lemma example_output:
  "unet_compute_output (example_unet ffs) =
     Inr [(0, 1, 0), (- 1, 0, 0), (0, 0, 5), (0, - 1, 0), (- 1, - 1, 0), (- 2, - 1, 0),
          (0, 0, - 1), (- 1, 0, - 1), (- 2, 0, - 1), (0, - 1, - 1), (- 1, - 1, - 1), (- 2, - 1, - 1)]"
  by (simp add: unet_compute_output_def example_defs zeros_def zero3_def index_put_def
      broadcast_rows_def subtract_def elementwise_def eval_nat_numeral)

lemma example_output_spec:
  "unet_compute_output_spec (example_unet ffs) =
     Inr [(0, 1, 0), (- 1, 0, 0), (- 2, 0, 5), (0, - 1, 0), (- 1, - 1, 0), (- 2, - 1, 0),
          (0, 0, - 1), (- 1, 0, - 1), (- 2, 0, - 1), (0, - 1, - 1), (- 1, - 1, - 1), (- 2, - 1, - 1)]"
  by (simp add: unet_compute_output_spec_def example_defs zeros_def zero3_def index_put_def
      broadcast_rows_def subtract_def elementwise_def eval_nat_numeral)

text \<open>
  C2, as the code has it. Without a grid \<open>compute_output\<close> returns current position minus
  rest position, node by node. With the grid it scatters the current positions of the
  sparse grid (not their displacement) into the slots that the index table selects and
  subtracts the rest shape of the regular grid: the slot of sparse node \<open>k\<close> holds its
  position minus the regular rest shape there, which is its displacement where the
  regular rest shape equals its rest position.
\<close>

theorem compute_output_displacement:
  "(length (rest_position (f_sparse_grid_mo fc)) = length (position (f_sparse_grid_mo fc)) \<longrightarrow>
      (\<exists>U. fc_compute_output fc = Inr U
          \<and> length U = length (position (f_sparse_grid_mo fc))
          \<and> (\<forall>k < length U. U ! k = vsub (position (f_sparse_grid_mo fc) ! k)
                                        (rest_position (f_sparse_grid_mo fc) ! k))))
   \<and> (index_table_ok env \<longrightarrow>
      (\<exists>U. unet_compute_output env = Inr U
          \<and> length U = data_size env
          \<and> (\<forall>k < length (idx_sparse_to_regular env).
                U ! (idx_sparse_to_regular env ! k) =
                  vsub (position (f_sparse_grid_mo env) ! k)
                       (regular_grid_rest_shape env ! (idx_sparse_to_regular env ! k)))
          \<and> (rest_shape_ok env \<longrightarrow>
               (\<forall>k < length (idx_sparse_to_regular env).
                  U ! (idx_sparse_to_regular env ! k) =
                    vsub (position (f_sparse_grid_mo env) ! k)
                         (rest_position (f_sparse_grid_mo env) ! k)))))"
proof (intro conjI impI)
  assume len: "length (rest_position (f_sparse_grid_mo fc)) = length (position (f_sparse_grid_mo fc))"
  then show "\<exists>U. fc_compute_output fc = Inr U
          \<and> length U = length (position (f_sparse_grid_mo fc))
          \<and> (\<forall>k < length U. U ! k = vsub (position (f_sparse_grid_mo fc) ! k)
                                        (rest_position (f_sparse_grid_mo fc) ! k))"
    by (simp add: fc_compute_output_def subtract_def elementwise_def)
next
  assume ok: "index_table_ok env"
  from unet_output_table[OF ok] show "\<exists>U. unet_compute_output env = Inr U
          \<and> length U = data_size env
          \<and> (\<forall>k < length (idx_sparse_to_regular env).
                U ! (idx_sparse_to_regular env ! k) =
                  vsub (position (f_sparse_grid_mo env) ! k)
                       (regular_grid_rest_shape env ! (idx_sparse_to_regular env ! k)))
          \<and> (rest_shape_ok env \<longrightarrow>
               (\<forall>k < length (idx_sparse_to_regular env).
                  U ! (idx_sparse_to_regular env ! k) =
                    vsub (position (f_sparse_grid_mo env) ! k)
                         (rest_position (f_sparse_grid_mo env) ! k)))"
    by (auto simp: rest_shape_ok_def)
qed

theorem compute_output_displacement_witness:
  "length (rest_position (f_sparse_grid_mo (example_fc []))) =
     length (position (f_sparse_grid_mo (example_fc [])))
   \<and> index_table_ok (example_unet []) \<and> rest_shape_ok (example_unet [])
   \<and> (\<exists>U. fc_compute_output (example_fc []) = Inr U \<and> U ! 1 = (0, 0, 5))
   \<and> (\<exists>U. unet_compute_output (example_unet []) = Inr U \<and> U ! 2 = (0, 0, 5))"
proof -
  let ?fc = "example_fc []" and ?env = "example_unet []"
  have len: "length (rest_position (f_sparse_grid_mo ?fc)) = length (position (f_sparse_grid_mo ?fc))"
    by (simp add: example_defs)
  from compute_output_displacement[of ?fc ?env] len example_index_table_ok example_rest_shape_ok
  obtain U V where
    U: "fc_compute_output ?fc = Inr U" "length U = length (position (f_sparse_grid_mo ?fc))"
      "\<forall>k < length U. U ! k = vsub (position (f_sparse_grid_mo ?fc) ! k)
                                   (rest_position (f_sparse_grid_mo ?fc) ! k)"
    and V: "unet_compute_output ?env = Inr V"
      "\<forall>k < length (idx_sparse_to_regular ?env).
          V ! (idx_sparse_to_regular ?env ! k) =
            vsub (position (f_sparse_grid_mo ?env) ! k) (rest_position (f_sparse_grid_mo ?env) ! k)"
    by blast
  have "U ! 1 = (0, 0, 5)" using U(2,3) by (simp add: example_defs)
  moreover have "1 < length (idx_sparse_to_regular ?env)" by (simp add: example_defs)
  with V(2) have "V ! (idx_sparse_to_regular ?env ! 1) =
      vsub (position (f_sparse_grid_mo ?env) ! 1) (rest_position (f_sparse_grid_mo ?env) ! 1)"
    by blast
  then have "V ! 2 = (0, 0, 5)" by (simp add: example_defs)
  ultimately show ?thesis
    using len example_index_table_ok example_rest_shape_ok U(1) V(1) by blast
qed

text \<open>
  C2 as the claim states it, the displacement scattered and the rest shape subtracted
  from it, is not what the code returns: on the example scene the slot of the second
  sparse node holds its displacement \<open>(0, 0, 5)\<close>, where the claim's reading gives
  \<open>(-2, 0, 5)\<close>.
\<close>

theorem compute_output_scatter_counterexample:
  "unet_compute_output (example_unet []) \<noteq> unet_compute_output_spec (example_unet [])
   \<and> (\<exists>U. unet_compute_output (example_unet []) = Inr U \<and> U ! 2 = (0, 0, 5))
   \<and> (\<exists>V. unet_compute_output_spec (example_unet []) = Inr V \<and> V ! 2 = (- 2, 0, 5))"
  by (simp add: example_output example_output_spec)

text \<open>
  C3. Let the index table and the rest shape be as the initialisation builds them. Then
  \<open>compute_output\<close> returns, \<open>apply_prediction\<close> applied to that output as the prediction
  returns, and afterwards every node of the network model's sparse grid, that is every
  regular node that is the image of a sparse node, stands at its rest position plus the
  displacement of the same node of the FEM model. (In the model the arithmetic is exact,
  so the tolerance is zero.)
\<close>

theorem unet_grid_round_trip:
  assumes "index_table_ok env" and "rest_shape_ok env"
    and "length (rest_position (n_sparse_grid_mo env)) = length (idx_sparse_to_regular env)"
  shows "\<exists>U env'. unet_compute_output env = Inr U
           \<and> unet_apply_prediction env [''prediction'' \<mapsto> flatten U] = Inr env'
           \<and> (\<forall>k < length (idx_sparse_to_regular env).
                 position (n_sparse_grid_mo env') ! k =
                   vadd (rest_position (n_sparse_grid_mo env) ! k)
                        (vsub (position (f_sparse_grid_mo env) ! k)
                              (rest_position (f_sparse_grid_mo env) ! k)))"
proof -
  let ?idx = "idx_sparse_to_regular env"
  from unet_output_table[OF assms(1)] obtain U where
    U: "unet_compute_output env = Inr U" and lU: "length U = data_size env"
    and at0: "\<forall>k < length ?idx. U ! (?idx ! k) =
                vsub (position (f_sparse_grid_mo env) ! k) (regular_grid_rest_shape env ! (?idx ! k))"
    by blast
  have at: "\<forall>k < length ?idx. U ! (?idx ! k) =
                vsub (position (f_sparse_grid_mo env) ! k) (rest_position (f_sparse_grid_mo env) ! k)"
    using at0 assms(2) by (simp add: rest_shape_ok_def)
  have rng: "\<forall>i \<in> set ?idx. i < data_size env"
    using assms(1) by (simp add: index_table_ok_def)
  have "[''prediction'' \<mapsto> flatten U] ''prediction'' = Some (flatten U)" by simp
  from unet_apply_prediction_run[of "[''prediction'' \<mapsto> flatten U]" "flatten U" env, OF this _ rng assms(3)] lU
  have run: "unet_apply_prediction env [''prediction'' \<mapsto> flatten U] =
           Inr (env\<lparr>n_sparse_grid_mo := (n_sparse_grid_mo env)
                  \<lparr>position := map2 vadd (rest_position (n_sparse_grid_mo env))
                                 (map (\<lambda>i. U ! i) ?idx)\<rparr>\<rparr>)"
    by simp
  show ?thesis
    using U run at assms(3) by simp
qed

theorem unet_grid_round_trip_witness:
  "index_table_ok (example_unet []) \<and> rest_shape_ok (example_unet [])
   \<and> length (rest_position (n_sparse_grid_mo (example_unet []))) =
       length (idx_sparse_to_regular (example_unet []))
   \<and> position (n_sparse_grid_mo (example_unet [])) = [(0, 0, 0), (2, 0, 0)]
   \<and> (\<exists>U env'. unet_compute_output (example_unet []) = Inr U
         \<and> unet_apply_prediction (example_unet []) [''prediction'' \<mapsto> flatten U] = Inr env'
         \<and> position (n_sparse_grid_mo env') ! 0 = (0, 1, 0)
         \<and> position (n_sparse_grid_mo env') ! 1 = (2, 0, 5))"
proof -
  let ?env = "example_unet []"
  have len: "length (rest_position (n_sparse_grid_mo ?env)) = length (idx_sparse_to_regular ?env)"
    by (simp add: example_defs)
  have pos: "position (n_sparse_grid_mo ?env) = [(0, 0, 0), (2, 0, 0)]"
    by (simp add: example_defs)
  from unet_grid_round_trip[OF example_index_table_ok example_rest_shape_ok len]
  obtain U env' where
    U: "unet_compute_output ?env = Inr U"
    and run: "unet_apply_prediction ?env [''prediction'' \<mapsto> flatten U] = Inr env'"
    and at: "\<forall>k < length (idx_sparse_to_regular ?env).
               position (n_sparse_grid_mo env') ! k =
                 vadd (rest_position (n_sparse_grid_mo ?env) ! k)
                      (vsub (position (f_sparse_grid_mo ?env) ! k)
                            (rest_position (f_sparse_grid_mo ?env) ! k))"
    by blast
  have "0 < length (idx_sparse_to_regular ?env)" "1 < length (idx_sparse_to_regular ?env)"
    by (simp_all add: example_defs)
  with at have "position (n_sparse_grid_mo env') ! 0 =
                 vadd (rest_position (n_sparse_grid_mo ?env) ! 0)
                      (vsub (position (f_sparse_grid_mo ?env) ! 0)
                            (rest_position (f_sparse_grid_mo ?env) ! 0))"
    "position (n_sparse_grid_mo env') ! 1 =
                 vadd (rest_position (n_sparse_grid_mo ?env) ! 1)
                      (vsub (position (f_sparse_grid_mo ?env) ! 1)
                            (rest_position (f_sparse_grid_mo ?env) ! 1))"
    by blast+
  then have "position (n_sparse_grid_mo env') ! 0 = (0, 1, 0)"
    "position (n_sparse_grid_mo env') ! 1 = (2, 0, 5)"
    by (simp_all add: example_defs)
  with U run len pos example_index_table_ok example_rest_shape_ok show ?thesis by blast
qed


text \<open>
  C4. Over a whole session the two shapes stay the ones fixed at initialisation, and every
  array that \<open>compute_input\<close> or \<open>compute_output\<close> returns has that shape: without a grid
  the shapes that \<open>onSimulationInitDoneEvent\<close> read from the network model, with the grid
  the shape \<open>data_size\<close>.
\<close>

theorem shape_invariance:
  "(fc_scene_ok e0 \<and> fc_session e0 e \<longrightarrow>
      input_size e = Some (length (position (n_surface_mo e0)))
      \<and> output_size e = Some (length (position (n_sparse_grid_mo e0)))
      \<and> (\<forall>F. fc_compute_input e = Inr F \<longrightarrow> length F = length (position (n_surface_mo e0)))
      \<and> (\<exists>U. fc_compute_output e = Inr U \<and> length U = length (position (n_sparse_grid_mo e0))))
   \<and> (length (regular_grid_rest_shape u0) = data_size u0 \<and> unet_session u0 u \<longrightarrow>
      data_size u = data_size u0
      \<and> (\<forall>F. unet_compute_input u = Inr F \<longrightarrow> length F = data_size u0)
      \<and> (\<forall>U. unet_compute_output u = Inr U \<longrightarrow> length U = data_size u0))"
proof (intro conjI impI)
  assume a: "fc_scene_ok e0 \<and> fc_session e0 e"
  then have inv: "input_size e = Some (length (position (n_surface_mo e0)))"
    "output_size e = Some (length (position (n_sparse_grid_mo e0)))"
    "same_node_count (f_sparse_grid_mo e0) (f_sparse_grid_mo e)"
    using fc_session_invariant by blast+
  show "input_size e = Some (length (position (n_surface_mo e0)))" by (rule inv(1))
  show "output_size e = Some (length (position (n_sparse_grid_mo e0)))" by (rule inv(2))
  show "\<forall>F. fc_compute_input e = Inr F \<longrightarrow> length F = length (position (n_surface_mo e0))"
    using inv(1) fc_compute_input_length by fastforce
  have "length (position (f_sparse_grid_mo e)) = length (position (n_sparse_grid_mo e0))"
    "length (rest_position (f_sparse_grid_mo e)) = length (position (n_sparse_grid_mo e0))"
    using a inv(3) by (simp_all add: fc_scene_ok_def same_node_count_def)
  then show "\<exists>U. fc_compute_output e = Inr U \<and> length U = length (position (n_sparse_grid_mo e0))"
    by (simp add: fc_compute_output_def subtract_def elementwise_def)
next
  assume b: "length (regular_grid_rest_shape u0) = data_size u0 \<and> unet_session u0 u"
  then have inv: "data_size u = data_size u0" "regular_grid_rest_shape u = regular_grid_rest_shape u0"
    using unet_session_invariant by blast+
  show "data_size u = data_size u0" by (rule inv(1))
  show "\<forall>F. unet_compute_input u = Inr F \<longrightarrow> length F = data_size u0"
    using unet_compute_input_length inv(1) by auto
  show "\<forall>U. unet_compute_output u = Inr U \<longrightarrow> length U = data_size u0"
    using unet_compute_output_length inv b by auto
qed

text \<open>
  A session on the example scene: initialisation, then a time step that replaces the force
  fields.
\<close>

theorem shape_invariance_witness:
  "fc_scene_ok (example_fc [ff_both])
   \<and> fc_session (example_fc [ff_both])
        ((fc_onSimulationInitDoneEvent (example_fc [ff_both]))\<lparr>force_field := [ff_one]\<rparr>)
   \<and> (\<exists>F. fc_compute_input
              ((fc_onSimulationInitDoneEvent (example_fc [ff_both]))\<lparr>force_field := [ff_one]\<rparr>) = Inr F
          \<and> length F = 2)
   \<and> (\<exists>U. fc_compute_output
              ((fc_onSimulationInitDoneEvent (example_fc [ff_both]))\<lparr>force_field := [ff_one]\<rparr>) = Inr U
          \<and> length U = 2)
   \<and> length (regular_grid_rest_shape (example_unet [ff_down])) = data_size (example_unet [ff_down])
   \<and> unet_session (example_unet [ff_down]) ((example_unet [ff_down])\<lparr>force_field := [ff_side]\<rparr>)
   \<and> (\<exists>F. unet_compute_input ((example_unet [ff_down])\<lparr>force_field := [ff_side]\<rparr>) = Inr F
          \<and> length F = 12)
   \<and> (\<exists>U. unet_compute_output ((example_unet [ff_down])\<lparr>force_field := [ff_side]\<rparr>) = Inr U
          \<and> length U = 12)"
proof -
  let ?ini = "example_fc [ff_both]" and ?uni = "example_unet [ff_down]"
  let ?cur = "(fc_onSimulationInitDoneEvent ?ini)\<lparr>force_field := [ff_one]\<rparr>"
  let ?ucur = "?uni\<lparr>force_field := [ff_side]\<rparr>"
  have ok: "fc_scene_ok ?ini" by (simp add: fc_scene_ok_def example_defs)
  have "fc_animate (fc_onSimulationInitDoneEvent ?ini) ?cur"
    by (simp add: fc_animate_def same_node_count_def)
  with fc_init have se: "fc_session ?ini ?cur" by (rule fc_step)
  have lr: "length (regular_grid_rest_shape ?uni) = data_size ?uni" by (simp add: example_defs)
  have "unet_animate ?uni ?ucur" by (simp add: unet_animate_def same_node_count_def)
  with unet_init have su: "unet_session ?uni ?ucur" by (rule unet_step)
  have fin: "fc_compute_input ?cur = Inr [(0, 0, 0), (0, 5, 0)]"
    by (simp add: fc_compute_input_def fc_onSimulationInitDoneEvent_def example_defs zeros_def
        index_put_def broadcast_rows_def zero3_def eval_nat_numeral)
  have uin: "unet_compute_input ?ucur =
     Inr [(0, 0, 0), (1, 0, 0), (1, 0, 0), (0, 0, 0), (1, 0, 0), (1, 0, 0),
          (0, 0, 0), (1, 0, 0), (1, 0, 0), (0, 0, 0), (1, 0, 0), (1, 0, 0)]"
    by (simp add: unet_compute_input_def example_defs zeros_def zero3_def eval_nat_numeral)
  have uout: "\<exists>U. unet_compute_output ?ucur = Inr U"
    by (simp add: unet_compute_output_def example_defs zeros_def zero3_def index_put_def
        broadcast_rows_def subtract_def elementwise_def eval_nat_numeral)
  from shape_invariance[of ?ini ?cur ?uni ?ucur] ok se lr su
  have fc: "\<forall>F. fc_compute_input ?cur = Inr F \<longrightarrow> length F = length (position (n_surface_mo ?ini))"
    "\<exists>U. fc_compute_output ?cur = Inr U \<and> length U = length (position (n_sparse_grid_mo ?ini))"
    and un: "\<forall>F. unet_compute_input ?ucur = Inr F \<longrightarrow> length F = data_size ?uni"
    "\<forall>U. unet_compute_output ?ucur = Inr U \<longrightarrow> length U = data_size ?uni"
    by blast+
  have n: "length (position (n_surface_mo ?ini)) = 2" "length (position (n_sparse_grid_mo ?ini)) = 2"
    "data_size ?uni = 12"
    by (simp_all add: example_defs)
  from fc(1) fin n(1) have a: "\<exists>F. fc_compute_input ?cur = Inr F \<and> length F = 2" by auto
  from fc(2) n(2) have b: "\<exists>U. fc_compute_output ?cur = Inr U \<and> length U = 2" by simp
  from un(1) uin n(3) have c: "\<exists>F. unet_compute_input ?ucur = Inr F \<and> length F = 12" by auto
  from un(2) uout n(3) have d: "\<exists>U. unet_compute_output ?ucur = Inr U \<and> length U = 12" by auto
  from ok se lr su a b c d show ?thesis by blast
qed

text \<open>
  C5. Given a flat prediction whose length is the product of the fixed output shape,
  \<open>apply_prediction\<close> writes into the position buffer of the network model its rest
  position plus the reshaped prediction, without a grid row for row, with the grid
  the rows that the index table selects; the new environment differs from the old one in
  that buffer only, so the FEM model, the rest positions and the index table are
  unchanged. The network model has as many rest positions as the shape (without a grid)
  or as the table has entries, and the table's entries are rows of the shape.
\<close>

theorem apply_prediction_effect:
  "(output_size fc = Some n \<and> prediction ''prediction'' = Some p \<and> length p = n * 3
      \<and> length (rest_position (n_sparse_grid_mo fc)) = n \<longrightarrow>
      (\<exists>fc'. fc_apply_prediction fc prediction = Inr fc'
         \<and> fc' = fc\<lparr>n_sparse_grid_mo := (n_sparse_grid_mo fc)\<lparr>position := position (n_sparse_grid_mo fc')\<rparr>\<rparr>
         \<and> length (position (n_sparse_grid_mo fc')) = n
         \<and> (\<forall>k < n. position (n_sparse_grid_mo fc') ! k =
                      vadd (rest_position (n_sparse_grid_mo fc) ! k)
                           (p ! (3 * k), p ! (3 * k + 1), p ! (3 * k + 2)))
         \<and> f_sparse_grid_mo fc' = f_sparse_grid_mo fc
         \<and> rest_position (n_sparse_grid_mo fc') = rest_position (n_sparse_grid_mo fc)))
   \<and> (prediction' ''prediction'' = Some p' \<and> length p' = data_size env * 3
      \<and> (\<forall>i \<in> set (idx_sparse_to_regular env). i < data_size env)
      \<and> length (rest_position (n_sparse_grid_mo env)) = length (idx_sparse_to_regular env) \<longrightarrow>
      (\<exists>env'. unet_apply_prediction env prediction' = Inr env'
         \<and> env' = env\<lparr>n_sparse_grid_mo := (n_sparse_grid_mo env)\<lparr>position := position (n_sparse_grid_mo env')\<rparr>\<rparr>
         \<and> length (position (n_sparse_grid_mo env')) = length (idx_sparse_to_regular env)
         \<and> (\<forall>k < length (idx_sparse_to_regular env).
               position (n_sparse_grid_mo env') ! k =
                 vadd (rest_position (n_sparse_grid_mo env) ! k)
                      (p' ! (3 * (idx_sparse_to_regular env ! k)),
                       p' ! (3 * (idx_sparse_to_regular env ! k) + 1),
                       p' ! (3 * (idx_sparse_to_regular env ! k) + 2)))
         \<and> f_sparse_grid_mo env' = f_sparse_grid_mo env
         \<and> rest_position (n_sparse_grid_mo env') = rest_position (n_sparse_grid_mo env)
         \<and> idx_sparse_to_regular env' = idx_sparse_to_regular env
         \<and> regular_grid_rest_shape env' = regular_grid_rest_shape env))"
proof (intro conjI impI)
  assume h: "output_size fc = Some n \<and> prediction ''prediction'' = Some p \<and> length p = n * 3
      \<and> length (rest_position (n_sparse_grid_mo fc)) = n"
  then have run: "fc_apply_prediction fc prediction =
           Inr (fc\<lparr>n_sparse_grid_mo := (n_sparse_grid_mo fc)
                  \<lparr>position := map2 vadd (rest_position (n_sparse_grid_mo fc)) (rows3 p)\<rparr>\<rparr>)"
    using fc_apply_prediction_run by blast
  have len: "length (rows3 p) = n" using h length_rows3 by blast
  have row: "rows3 p ! k = (p ! (3 * k), p ! (3 * k + 1), p ! (3 * k + 2))" if "k < n" for k
    using rows3_nth h that by blast
  show "\<exists>fc'. fc_apply_prediction fc prediction = Inr fc'
         \<and> fc' = fc\<lparr>n_sparse_grid_mo := (n_sparse_grid_mo fc)\<lparr>position := position (n_sparse_grid_mo fc')\<rparr>\<rparr>
         \<and> length (position (n_sparse_grid_mo fc')) = n
         \<and> (\<forall>k < n. position (n_sparse_grid_mo fc') ! k =
                      vadd (rest_position (n_sparse_grid_mo fc) ! k)
                           (p ! (3 * k), p ! (3 * k + 1), p ! (3 * k + 2)))
         \<and> f_sparse_grid_mo fc' = f_sparse_grid_mo fc
         \<and> rest_position (n_sparse_grid_mo fc') = rest_position (n_sparse_grid_mo fc)"
    using run h len row by simp
next
  let ?idx = "idx_sparse_to_regular env"
  assume h: "prediction' ''prediction'' = Some p' \<and> length p' = data_size env * 3
      \<and> (\<forall>i \<in> set ?idx. i < data_size env)
      \<and> length (rest_position (n_sparse_grid_mo env)) = length ?idx"
  then have run: "unet_apply_prediction env prediction' =
           Inr (env\<lparr>n_sparse_grid_mo := (n_sparse_grid_mo env)
                  \<lparr>position := map2 vadd (rest_position (n_sparse_grid_mo env))
                                 (map (\<lambda>i. rows3 p' ! i) ?idx)\<rparr>\<rparr>)"
    using unet_apply_prediction_run by blast
  have row: "rows3 p' ! (?idx ! k) =
      (p' ! (3 * (?idx ! k)), p' ! (3 * (?idx ! k) + 1), p' ! (3 * (?idx ! k) + 2))"
    if "k < length ?idx" for k
  proof -
    have "?idx ! k < data_size env" using h that nth_mem by blast
    with rows3_nth h show ?thesis by blast
  qed
  show "\<exists>env'. unet_apply_prediction env prediction' = Inr env'
         \<and> env' = env\<lparr>n_sparse_grid_mo := (n_sparse_grid_mo env)\<lparr>position := position (n_sparse_grid_mo env')\<rparr>\<rparr>
         \<and> length (position (n_sparse_grid_mo env')) = length ?idx
         \<and> (\<forall>k < length ?idx.
               position (n_sparse_grid_mo env') ! k =
                 vadd (rest_position (n_sparse_grid_mo env) ! k)
                      (p' ! (3 * (?idx ! k)), p' ! (3 * (?idx ! k) + 1), p' ! (3 * (?idx ! k) + 2)))
         \<and> f_sparse_grid_mo env' = f_sparse_grid_mo env
         \<and> rest_position (n_sparse_grid_mo env') = rest_position (n_sparse_grid_mo env)
         \<and> idx_sparse_to_regular env' = idx_sparse_to_regular env
         \<and> regular_grid_rest_shape env' = regular_grid_rest_shape env"
    using run h row by simp
qed

theorem apply_prediction_effect_witness:
  "(\<exists>fc'. fc_apply_prediction (fc_onSimulationInitDoneEvent (example_fc []))
              [''prediction'' \<mapsto> [1, 2, 3, 4, 5, 6]] = Inr fc'
       \<and> position (n_sparse_grid_mo fc') ! 1 = (6, 5, 6)
       \<and> f_sparse_grid_mo fc' = example_sparse)
   \<and> (\<exists>env'. unet_apply_prediction (example_unet []) [''prediction'' \<mapsto> replicate 36 1] = Inr env'
       \<and> position (n_sparse_grid_mo env') ! 1 = (3, 1, 1)
       \<and> idx_sparse_to_regular env' = [0, 2])"
proof -
  let ?fc = "fc_onSimulationInitDoneEvent (example_fc [])" and ?env = "example_unet []"
  let ?p = "[1, 2, 3, 4, 5, 6] :: real list" and ?q = "replicate 36 1 :: real list"
  have h1: "output_size ?fc = Some 2 \<and> [''prediction'' \<mapsto> ?p] ''prediction'' = Some ?p
      \<and> length ?p = 2 * 3 \<and> length (rest_position (n_sparse_grid_mo ?fc)) = 2"
    by (simp add: fc_onSimulationInitDoneEvent_def example_defs)
  have h2: "[''prediction'' \<mapsto> ?q] ''prediction'' = Some ?q \<and> length ?q = data_size ?env * 3
      \<and> (\<forall>i \<in> set (idx_sparse_to_regular ?env). i < data_size ?env)
      \<and> length (rest_position (n_sparse_grid_mo ?env)) = length (idx_sparse_to_regular ?env)"
    by (simp add: example_defs)
  from apply_prediction_effect[of ?fc 2 "[''prediction'' \<mapsto> ?p]" ?p
      "[''prediction'' \<mapsto> ?q]" ?q ?env] h1 h2
  obtain fc' env' where
    fc: "fc_apply_prediction ?fc [''prediction'' \<mapsto> ?p] = Inr fc'"
      "\<forall>k < 2. position (n_sparse_grid_mo fc') ! k =
                 vadd (rest_position (n_sparse_grid_mo ?fc) ! k)
                      (?p ! (3 * k), ?p ! (3 * k + 1), ?p ! (3 * k + 2))"
      "f_sparse_grid_mo fc' = f_sparse_grid_mo ?fc"
    and un: "unet_apply_prediction ?env [''prediction'' \<mapsto> ?q] = Inr env'"
      "\<forall>k < length (idx_sparse_to_regular ?env).
         position (n_sparse_grid_mo env') ! k =
           vadd (rest_position (n_sparse_grid_mo ?env) ! k)
                (?q ! (3 * (idx_sparse_to_regular ?env ! k)),
                 ?q ! (3 * (idx_sparse_to_regular ?env ! k) + 1),
                 ?q ! (3 * (idx_sparse_to_regular ?env ! k) + 2))"
      "idx_sparse_to_regular env' = idx_sparse_to_regular ?env"
    by blast
  have a: "position (n_sparse_grid_mo fc') ! 1 = (6, 5, 6)"
    using fc(2) by (simp add: fc_onSimulationInitDoneEvent_def example_defs)
  have b: "f_sparse_grid_mo fc' = example_sparse"
    using fc(3) by (simp add: fc_onSimulationInitDoneEvent_def example_defs)
  have "1 < length (idx_sparse_to_regular ?env)" by (simp add: example_defs)
  with un(2) have "position (n_sparse_grid_mo env') ! 1 =
           vadd (rest_position (n_sparse_grid_mo ?env) ! 1)
                (?q ! (3 * (idx_sparse_to_regular ?env ! 1)),
                 ?q ! (3 * (idx_sparse_to_regular ?env ! 1) + 1),
                 ?q ! (3 * (idx_sparse_to_regular ?env ! 1) + 2))"
    by blast
  then have c: "position (n_sparse_grid_mo env') ! 1 = (3, 1, 1)"
    by (simp add: example_defs)
  have d: "idx_sparse_to_regular env' = [0, 2]" using un(3) by (simp add: example_defs)
  from fc(1) un(1) a b c d show ?thesis by blast
qed

end
